theory Spec2Isabelle
  imports Complex_Main "HOL-Library.Product_Lexorder"
begin

section \<open>Values, rows and frames\<close>

text \<open>
  The pipeline moves pandas data frames between its stages. A frame is modelled as the
  list of its rows, in row order; a row gives a cell for every column name. A cell is a
  number, a text, a boolean or the null value (pandas' NaN / None). Numbers are the
  real numbers: rounding error, infinities and signed zeros of IEEE floats are outside
  the model. The frames are those of the star schema: every column a function reads is
  there (pandas' KeyError on a missing column does not arise), and a column that is
  summed or compared with a number holds numbers and nulls. Reading and writing the CSV
  files is taken to preserve the frames.
\<close>

datatype error = KeyError string | ZeroDivisionError

datatype val = Num real | Str string | Bool bool | NaN

type_synonym row = "string \<Rightarrow> val"
type_synonym frame = "row list"

text \<open>A Python float result: a real number, or \<open>None\<close> for NaN.\<close>

type_synonym pyfloat = "real option"

text \<open>\<open>Series.isnull()\<close> on one cell.\<close>

fun isnull :: "val \<Rightarrow> bool" where
  "isnull NaN = True"
| "isnull _ = False"

text \<open>The numeric reading of a cell of a numeric column; a null cell reads as NaN.\<close>

fun as_num :: "val \<Rightarrow> pyfloat" where
  "as_num (Num x) = Some x"
| "as_num _ = None"

text \<open>Float comparisons: every comparison with NaN is false.\<close>

fun fcmp :: "(real \<Rightarrow> real \<Rightarrow> bool) \<Rightarrow> pyfloat \<Rightarrow> real \<Rightarrow> bool" where
  "fcmp rel None t = False"
| "fcmp rel (Some v) t = rel v t"

text \<open>The column \<open>df[col]\<close> as the list of its cells.\<close>

definition column :: "frame \<Rightarrow> string \<Rightarrow> val list" where
  "column df col = map (\<lambda>r. r col) df"

section \<open>transform.py\<close>

text \<open>
  \<open>pd.to_numeric(cell, errors="coerce")\<close>. A number stays, a boolean counts as 1 or 0, a
  text becomes the number it spells or null when it spells none, null stays null. Which
  texts spell a number is pandas' business: the parser is the parameter \<open>parse\<close>.
\<close>

fun to_numeric :: "(string \<Rightarrow> real option) \<Rightarrow> val \<Rightarrow> val" where
  "to_numeric parse (Num x) = Num x"
| "to_numeric parse (Bool b) = Num (if b then 1 else 0)"
| "to_numeric parse (Str s) = (case parse s of Some x \<Rightarrow> Num x | None \<Rightarrow> NaN)"
| "to_numeric parse NaN = NaN"

text \<open>\<open>cell.astype(bool)\<close>: Python truthiness; NaN is true.\<close>

fun astype_bool :: "val \<Rightarrow> val" where
  "astype_bool (Bool b) = Bool b"
| "astype_bool (Num x) = Bool (x \<noteq> 0)"
| "astype_bool (Str s) = Bool (s \<noteq> [])"
| "astype_bool NaN = Bool True"

text \<open>The column assignment \<open>df[col] = f(df[col])\<close>, cell by cell.\<close>

definition assign :: "string \<Rightarrow> (val \<Rightarrow> val) \<Rightarrow> frame \<Rightarrow> frame" where
  "assign col f df = map (\<lambda>r. r(col := f (r col))) df"

text \<open>\<open>df.dropna(subset=cols)\<close>: the rows with no null cell in the listed columns.\<close>

definition dropna :: "string list \<Rightarrow> frame \<Rightarrow> frame" where
  "dropna cols df = filter (\<lambda>r. list_all (\<lambda>c. \<not> isnull (r c)) cols) df"

text \<open>
  \<open>df.drop_duplicates(subset=[col])\<close>: the first row of every value of the column is
  kept. \<open>seen\<close> holds the values met so far.
\<close>

fun drop_duplicates_from :: "val list \<Rightarrow> string \<Rightarrow> frame \<Rightarrow> frame" where
  "drop_duplicates_from seen col [] = []"
| "drop_duplicates_from seen col (r # rs) =
     (if r col \<in> set seen then drop_duplicates_from seen col rs
      else r # drop_duplicates_from (r col # seen) col rs)"

definition drop_duplicates :: "string \<Rightarrow> frame \<Rightarrow> frame" where
  "drop_duplicates col df = drop_duplicates_from [] col df"

text \<open>
  \<open>transform_dim_date\<close>. \<open>pd.to_datetime(df["full_date"])\<close> is called without
  \<open>errors="coerce"\<close> and raises on a cell that is no date; which cells are dates is the
  parameter \<open>is_date\<close>. Calendar values themselves are not modelled, a date cell keeps
  its text.
\<close>

datatype transform_error = ValueError

definition transform_dim_date :: "(val \<Rightarrow> bool) \<Rightarrow> frame \<Rightarrow> transform_error + frame" where
  "transform_dim_date is_date df =
     (if list_all (\<lambda>r. is_date (r ''full_date'')) df
      then Inr (drop_duplicates ''date_key''
                 (assign ''is_holiday'' astype_bool (assign ''is_weekend'' astype_bool df)))
      else Inl ValueError)"

text \<open>
  \<open>transform_dim_product\<close>. The columns \<open>launch_date\<close> (a date, coerced) and
  \<open>margin_band\<close> (a label cut from a quotient of floats) are not written by the model;
  neither step adds or removes a row.
\<close>

definition transform_dim_product :: "(string \<Rightarrow> real option) \<Rightarrow> frame \<Rightarrow> frame" where
  "transform_dim_product parse df =
     dropna [''unit_cost'', ''list_price'']
       (assign ''is_active'' astype_bool
         (assign ''list_price'' (to_numeric parse)
           (assign ''unit_cost'' (to_numeric parse) df)))"

text \<open>
  \<open>transform_fact_sales\<close>, step by step: the numeric columns are cast in the order of
  \<open>numeric_cols\<close>, the rows are filtered by the five foreign keys, the eligibility flag
  is set, and the rows with a null critical measure are dropped. The timestamp columns
  and the three derived columns (\<open>gross_margin_pct\<close>, \<open>target_attainment_pct\<close>,
  \<open>discount_impact\<close>: rounded quotients and products of floats) are not written by the
  model; neither step adds or removes a row.
\<close>

definition numeric_cols :: "string list" where
  "numeric_cols = [''quantity'', ''unit_price'', ''discount_pct'', ''sales_amount'',
                   ''cogs'', ''gross_margin'', ''target_amount'']"

definition cast_numeric :: "(string \<Rightarrow> real option) \<Rightarrow> frame \<Rightarrow> frame" where
  "cast_numeric parse df = fold (\<lambda>col d. assign col (to_numeric parse) d) numeric_cols df"

definition fk_filter :: "frame \<Rightarrow> frame \<Rightarrow> frame \<Rightarrow> frame \<Rightarrow> frame \<Rightarrow> frame \<Rightarrow> frame" where
  "fk_filter df dates products customers employees regions =
     (let valid_dates = set (column dates ''date_key'');
          valid_products = set (column products ''product_key'');
          valid_customers = set (column customers ''customer_key'');
          valid_employees = set (column employees ''employee_key'');
          valid_regions = set (column regions ''region_key'')
      in filter (\<lambda>r. r ''date_key'' \<in> valid_dates \<and>
                      r ''product_key'' \<in> valid_products \<and>
                      r ''customer_key'' \<in> valid_customers \<and>
                      r ''employee_key'' \<in> valid_employees \<and>
                      r ''region_key'' \<in> valid_regions) df)"

definition set_revenue_eligible :: "frame \<Rightarrow> frame" where
  "set_revenue_eligible df =
     map (\<lambda>r. r(''is_revenue_eligible'' := Bool (r ''order_status'' \<noteq> Str ''Cancelled''))) df"

definition transform_fact_sales ::
  "(string \<Rightarrow> real option) \<Rightarrow> frame \<Rightarrow> frame \<Rightarrow> frame \<Rightarrow> frame \<Rightarrow> frame \<Rightarrow> frame \<Rightarrow> frame" where
  "transform_fact_sales parse df dates products customers employees regions =
     dropna [''sales_amount'', ''cogs'', ''quantity'']
       (set_revenue_eligible
         (fk_filter (cast_numeric parse df) dates products customers employees regions))"

section \<open>validate.py\<close>

text \<open>
  The name of a check. The source formats it into one string; the model keeps its parts,
  so that no rendering of numbers is needed: \<open>No_nulls c\<close> is \<open>no_nulls.c\<close>,
  \<open>No_duplicate_pk k\<close> is \<open>no_duplicate_pk.k\<close>, \<open>Fk c t k\<close> is the arrow from \<open>fk.c\<close> to
  \<open>t.k\<close>, \<open>Range c lo hi\<close> is \<open>range.c in [lo, hi]\<close>, and \<open>Named s\<close> is the literal \<open>s\<close>.
\<close>

datatype check_name =
    No_nulls string
  | No_duplicate_pk string
  | Fk string string string
  | Range string "real option" "real option"
  | Named string

text \<open>
  \<open>ValidationResult\<close>. Its \<open>message\<close> is display text, \<open>OK\<close> or a rendering of
  \<open>row_count\<close>, and is not part of the model.
\<close>

record ValidationResult =
  check_name :: check_name
  table :: string
  passed :: bool
  severity :: string
  row_count :: nat

record ValidationReport =
  vresults :: "ValidationResult list"

definition new_report :: ValidationReport where
  "new_report = \<lparr> vresults = [] \<rparr>"

definition add :: "ValidationReport \<Rightarrow> ValidationResult \<Rightarrow> ValidationReport" where
  "add report result = report\<lparr>vresults := vresults report @ [result]\<rparr>"

definition errors :: "ValidationReport \<Rightarrow> ValidationResult list" where
  "errors report = filter (\<lambda>r. \<not> passed r \<and> severity r = ''ERROR'') (vresults report)"

definition warnings :: "ValidationReport \<Rightarrow> ValidationResult list" where
  "warnings report = filter (\<lambda>r. \<not> passed r \<and> severity r = ''WARNING'') (vresults report)"

definition passed_count :: "ValidationReport \<Rightarrow> nat" where
  "passed_count report = length (filter passed (vresults report))"

text \<open>\<open>print_summary\<close>: the console output is left out, the returned value is kept.\<close>

definition print_summary :: "ValidationReport \<Rightarrow> bool" where
  "print_summary report =
     (let err_cnt = length (errors report)
      in err_cnt = 0)"

subsection \<open>Generic checks\<close>

text \<open>The number of true entries of a boolean series, \<open>mask.sum()\<close>.\<close>

definition count_true :: "bool list \<Rightarrow> nat" where
  "count_true bs = length (filter (\<lambda>b. b) bs)"

fun check_no_nulls :: "frame \<Rightarrow> string \<Rightarrow> string list \<Rightarrow> ValidationReport \<Rightarrow> ValidationReport" where
  "check_no_nulls df tbl [] report = report"
| "check_no_nulls df tbl (col # cols) report =
     (let null_count = count_true (map isnull (column df col));
          ok = (null_count = 0)
      in check_no_nulls df tbl cols
           (add report \<lparr> check_name = No_nulls col, table = tbl, passed = ok,
                         severity = ''ERROR'', row_count = null_count \<rparr>))"

text \<open>
  \<open>Series.duplicated()\<close>: an entry is marked when its value occurred at an earlier
  position (null counts as a value).
\<close>

fun duplicated_from :: "val list \<Rightarrow> val list \<Rightarrow> bool list" where
  "duplicated_from seen [] = []"
| "duplicated_from seen (x # xs) = (x \<in> set seen) # duplicated_from (x # seen) xs"

definition duplicated :: "val list \<Rightarrow> bool list" where
  "duplicated xs = duplicated_from [] xs"

definition check_no_duplicates :: "frame \<Rightarrow> string \<Rightarrow> string \<Rightarrow> ValidationReport \<Rightarrow> ValidationReport" where
  "check_no_duplicates df tbl pk report =
     (let dup_count = count_true (duplicated (column df pk));
          ok = (dup_count = 0)
      in add report \<lparr> check_name = No_duplicate_pk pk, table = tbl, passed = ok,
                       severity = ''ERROR'', row_count = dup_count \<rparr>)"

definition check_fk_integrity ::
  "frame \<Rightarrow> string \<Rightarrow> frame \<Rightarrow> string \<Rightarrow> string \<Rightarrow> string \<Rightarrow> ValidationReport \<Rightarrow> ValidationReport" where
  "check_fk_integrity df fk_col ref_df ref_col tbl ref_table report =
     (let orphan_count = count_true (map (\<lambda>v. \<not> (v \<in> set (column ref_df ref_col))) (column df fk_col));
          ok = (orphan_count = 0)
      in add report \<lparr> check_name = Fk fk_col ref_table ref_col, table = tbl, passed = ok,
                       severity = ''ERROR'', row_count = orphan_count \<rparr>)"

text \<open>
  The element-wise comparisons \<open>cell < bound\<close> and \<open>cell > bound\<close> of a numeric column
  with a number: false on a null cell. (A column holding text cannot be compared with a
  number in pandas; the checks below are applied to numeric columns.)
\<close>

definition cell_lt :: "val \<Rightarrow> real \<Rightarrow> bool" where
  "cell_lt v b = fcmp (<) (as_num v) b"

definition cell_gt :: "val \<Rightarrow> real \<Rightarrow> bool" where
  "cell_gt v b = fcmp (>) (as_num v) b"

definition range_mask :: "val list \<Rightarrow> real option \<Rightarrow> real option \<Rightarrow> bool list" where
  "range_mask cells min_val max_val =
     (let mask0 = map (\<lambda>v. False) cells;
          mask1 = (case min_val of None \<Rightarrow> mask0
                   | Some lo \<Rightarrow> map (\<lambda>(m, v). m \<or> cell_lt v lo) (zip mask0 cells));
          mask2 = (case max_val of None \<Rightarrow> mask1
                   | Some hi \<Rightarrow> map (\<lambda>(m, v). m \<or> cell_gt v hi) (zip mask1 cells))
      in mask2)"

definition check_value_range ::
  "frame \<Rightarrow> string \<Rightarrow> string \<Rightarrow> real option \<Rightarrow> real option \<Rightarrow> ValidationReport \<Rightarrow> string
     \<Rightarrow> ValidationReport" where
  "check_value_range df tbl col min_val max_val report sev =
     (let out_of_range = count_true (range_mask (column df col) min_val max_val);
          ok = (out_of_range = 0)
      in add report \<lparr> check_name = Range col min_val max_val, table = tbl, passed = ok,
                       severity = sev, row_count = out_of_range \<rparr>)"

subsection \<open>Table-specific validations\<close>

definition validate_dim_date :: "frame \<Rightarrow> ValidationReport \<Rightarrow> ValidationReport" where
  "validate_dim_date df report0 =
     (let report1 = check_no_nulls df ''dim_date''
                      [''date_key'', ''full_date'', ''year'', ''month_number''] report0;
          report2 = check_no_duplicates df ''dim_date'' ''date_key'' report1;
          report3 = check_value_range df ''dim_date'' ''month_number'' (Some 1) (Some 12) report2 ''ERROR'';
          report4 = check_value_range df ''dim_date'' ''day_of_month'' (Some 1) (Some 31) report3 ''ERROR'';
          report5 = check_value_range df ''dim_date'' ''year'' (Some 2000) (Some 2030) report4 ''ERROR'';
          q_values = remdups (column df ''quarter'');
          invalid_q = filter (\<lambda>q. q \<notin> set [Str ''Q1'', Str ''Q2'', Str ''Q3'', Str ''Q4'']) q_values
      in add report5 \<lparr> check_name = Named ''valid_quarter_values'', table = ''dim_date'',
                        passed = (length invalid_q = 0), severity = ''ERROR'',
                        row_count = length invalid_q \<rparr>)"

definition validate_dim_product :: "frame \<Rightarrow> ValidationReport \<Rightarrow> ValidationReport" where
  "validate_dim_product df report0 =
     (let report1 = check_no_nulls df ''dim_product''
                      [''product_key'', ''product_id'', ''product_name'', ''category'',
                       ''unit_cost'', ''list_price''] report0;
          report2 = check_no_duplicates df ''dim_product'' ''product_key'' report1;
          report3 = check_value_range df ''dim_product'' ''unit_cost'' (Some 0) None report2 ''ERROR'';
          report4 = check_value_range df ''dim_product'' ''list_price'' (Some 0) None report3 ''ERROR'';
          inverted = count_true (map (\<lambda>r. case as_num (r ''unit_cost'') of None \<Rightarrow> False
                                           | Some c \<Rightarrow> cell_lt (r ''list_price'') c) df)
      in add report4 \<lparr> check_name = Named ''list_price >= unit_cost'', table = ''dim_product'',
                        passed = (inverted = 0), severity = ''WARNING'',
                        row_count = inverted \<rparr>)"

definition validate_dim_customer :: "frame \<Rightarrow> ValidationReport \<Rightarrow> ValidationReport" where
  "validate_dim_customer df report0 =
     (let report1 = check_no_nulls df ''dim_customer''
                      [''customer_key'', ''customer_id'', ''customer_name'', ''segment''] report0;
          report2 = check_no_duplicates df ''dim_customer'' ''customer_key'' report1;
          valid_segments = set [Str ''Enterprise'', Str ''Mid-Market'', Str ''SMB'', Str ''Startup''];
          invalid_segs = count_true (map (\<lambda>v. \<not> (v \<in> valid_segments)) (column df ''segment''))
      in add report2 \<lparr> check_name = Named ''valid_segment_values'', table = ''dim_customer'',
                        passed = (invalid_segs = 0), severity = ''WARNING'',
                        row_count = invalid_segs \<rparr>)"

definition validate_dim_employee :: "frame \<Rightarrow> ValidationReport \<Rightarrow> ValidationReport" where
  "validate_dim_employee df report0 =
     (let report1 = check_no_nulls df ''dim_employee''
                      [''employee_key'', ''employee_id'', ''full_name'', ''department''] report0
      in check_no_duplicates df ''dim_employee'' ''employee_key'' report1)"

definition validate_dim_region :: "frame \<Rightarrow> ValidationReport \<Rightarrow> ValidationReport" where
  "validate_dim_region df report0 =
     (let report1 = check_no_nulls df ''dim_region''
                      [''region_key'', ''country'', ''region'', ''city'', ''currency''] report0
      in check_no_duplicates df ''dim_region'' ''region_key'' report1)"

definition validate_fact_sales ::
  "frame \<Rightarrow> frame \<Rightarrow> frame \<Rightarrow> frame \<Rightarrow> frame \<Rightarrow> frame \<Rightarrow> ValidationReport \<Rightarrow> ValidationReport" where
  "validate_fact_sales df dates products customers employees regions report0 =
     (let report1 = check_no_nulls df ''fact_sales''
                      [''sales_key'', ''order_id'', ''date_key'', ''product_key'',
                       ''customer_key'', ''region_key'', ''employee_key'',
                       ''quantity'', ''unit_price'', ''sales_amount'', ''cogs''] report0;
          report2 = check_no_duplicates df ''fact_sales'' ''sales_key'' report1;
          report3 = check_fk_integrity df ''date_key'' dates ''date_key'' ''fact_sales'' ''dim_date'' report2;
          report4 = check_fk_integrity df ''product_key'' products ''product_key'' ''fact_sales'' ''dim_product'' report3;
          report5 = check_fk_integrity df ''customer_key'' customers ''customer_key'' ''fact_sales'' ''dim_customer'' report4;
          report6 = check_fk_integrity df ''employee_key'' employees ''employee_key'' ''fact_sales'' ''dim_employee'' report5;
          report7 = check_fk_integrity df ''region_key'' regions ''region_key'' ''fact_sales'' ''dim_region'' report6;
          report8 = check_value_range df ''fact_sales'' ''quantity'' (Some 1) None report7 ''ERROR'';
          report9 = check_value_range df ''fact_sales'' ''unit_price'' (Some (1/100)) None report8 ''ERROR'';
          report10 = check_value_range df ''fact_sales'' ''discount_pct'' (Some 0) (Some 1) report9 ''ERROR'';
          report11 = check_value_range df ''fact_sales'' ''sales_amount'' (Some 0) None report10 ''ERROR'';
          report12 = check_value_range df ''fact_sales'' ''cogs'' (Some 0) None report11 ''ERROR'';
          gm_anomaly = count_true (map (\<lambda>r. case as_num (r ''sales_amount'') of None \<Rightarrow> False
                                             | Some s \<Rightarrow> cell_gt (r ''gross_margin'') s) df);
          report13 = add report12 \<lparr> check_name = Named ''gross_margin <= sales_amount'',
                        table = ''fact_sales'', passed = (gm_anomaly = 0), severity = ''WARNING'',
                        row_count = gm_anomaly \<rparr>;
          valid_statuses = set [Str ''Open'', Str ''Confirmed'', Str ''Shipped'', Str ''Delivered'',
                                Str ''Cancelled''];
          invalid_status = count_true (map (\<lambda>v. \<not> (v \<in> valid_statuses)) (column df ''order_status''))
      in add report13 \<lparr> check_name = Named ''valid_order_status'', table = ''fact_sales'',
                         passed = (invalid_status = 0), severity = ''ERROR'',
                         row_count = invalid_status \<rparr>)"

subsection \<open>The validation run\<close>

text \<open>
  \<open>run_validation\<close> on the six loaded frames. \<open>run_checks\<close> is its report just before
  \<open>print_summary\<close>; the run then either returns the flag or leaves through
  \<open>sys.exit(1)\<close>.
\<close>

datatype outcome = Returned bool | SystemExit nat

definition run_checks :: "frame \<Rightarrow> frame \<Rightarrow> frame \<Rightarrow> frame \<Rightarrow> frame \<Rightarrow> frame \<Rightarrow> ValidationReport" where
  "run_checks dates products customers employees regions fact_sales =
     validate_fact_sales fact_sales dates products customers employees regions
       (validate_dim_region regions
         (validate_dim_employee employees
           (validate_dim_customer customers
             (validate_dim_product products
               (validate_dim_date dates new_report)))))"

definition run_validation :: "frame \<Rightarrow> frame \<Rightarrow> frame \<Rightarrow> frame \<Rightarrow> frame \<Rightarrow> frame \<Rightarrow> outcome" where
  "run_validation dates products customers employees regions fact_sales =
     (let report = run_checks dates products customers employees regions fact_sales;
          all_passed = print_summary report
      in if \<not> all_passed then SystemExit 1 else Returned all_passed)"

section \<open>kpi\_calculator.py: threshold classification\<close>

text \<open>
  One entry of a thresholds dictionary, \<open>{"operator": op, "value": x}\<close>, and the
  dictionary itself as an association list from level name to entry. Reading a key the
  dictionary does not have raises KeyError.
\<close>

record threshold =
  thr_operator :: string
  thr_value :: real

type_synonym thresholds = "(string \<times> threshold) list"

definition lookup :: "(string \<times> 'a) list \<Rightarrow> string \<Rightarrow> error + 'a" where
  "lookup d k = (case map_of d k of None \<Rightarrow> Inl (KeyError k) | Some v \<Rightarrow> Inr v)"

text \<open>
  The inner function \<open>check(op, threshold)\<close> of \<open>rag_status\<close>: it builds the table
  \<open>ops\<close> of the five comparisons of \<open>value\<close> with the threshold and returns
  \<open>ops.get(op, False)\<close>.
\<close>

definition check :: "pyfloat \<Rightarrow> string \<Rightarrow> real \<Rightarrow> bool" where
  "check v op t =
     (let ops = [(''>='', fcmp (\<ge>) v t),
                 (''<='', fcmp (\<le>) v t),
                 (''>'',  fcmp (>) v t),
                 (''<'',  fcmp (<) v t),
                 (''='',  fcmp (=) v t)]
      in case map_of ops op of Some b \<Rightarrow> b | None \<Rightarrow> False)"

text \<open>
  \<open>rag_status(value, thresholds, direction)\<close>. The levels are read in the order
  excellent, good, warning, each only when the earlier ones were not satisfied.
\<close>

definition rag_status :: "pyfloat \<Rightarrow> thresholds \<Rightarrow> string \<Rightarrow> error + string" where
  "rag_status v t direction =
     (if t = [] then Inr ''INFO''
      else case lookup t ''excellent'' of Inl e \<Rightarrow> Inl e | Inr ex \<Rightarrow>
        if check v (thr_operator ex) (thr_value ex) then Inr ''GREEN''
        else case lookup t ''good'' of Inl e \<Rightarrow> Inl e | Inr gd \<Rightarrow>
          if check v (thr_operator gd) (thr_value gd) then Inr ''GREEN''
          else case lookup t ''warning'' of Inl e \<Rightarrow> Inl e | Inr wn \<Rightarrow>
            if check v (thr_operator wn) (thr_value wn) then Inr ''AMBER''
            else Inr ''RED'')"

text \<open>
  The comparison of a number with a threshold entry as the specification words it: the
  five operators are evaluated against the entry's value, any other operator string is
  not satisfied.
\<close>

definition spec_satisfies :: "real \<Rightarrow> threshold \<Rightarrow> bool" where
  "spec_satisfies x e =
     (if thr_operator e = ''>='' then x \<ge> thr_value e
      else if thr_operator e = ''<='' then x \<le> thr_value e
      else if thr_operator e = ''>'' then x > thr_value e
      else if thr_operator e = ''<'' then x < thr_value e
      else if thr_operator e = ''='' then x = thr_value e
      else False)"

section \<open>kpi\_calculator.py: the calculator\<close>

text \<open>
  One entry of the KPI catalog (\<open>kpi_definitions.json\<close>, key \<open>kpi_catalog.kpis\<close>).
  The fields read with \<open>kpi_def[...]\<close> are present in every entry; \<open>thresholds\<close> and
  \<open>trend_direction\<close> are read with \<open>.get\<close> and may be absent.
\<close>

record kpi_def =
  kd_id :: string
  kd_name :: string
  kd_category :: string
  kd_unit :: string
  kd_formula :: string
  kd_thresholds :: "thresholds option"
  kd_trend_direction :: "string option"

text \<open>
  One record appended to \<open>self.results\<close>. The field \<open>calculated_at\<close> is the wall-clock
  time of the run and is not part of the model.
\<close>

record kpi_result =
  res_kpi_id :: string
  res_kpi_name :: string
  res_category :: string
  res_value :: pyfloat
  res_unit :: string
  res_rag_status :: string
  res_formula :: string

record KPICalculator =
  fact :: frame
  dim_date :: frame
  kpi_defs :: "kpi_def list"
  eligible :: frame
  results :: "kpi_result list"

text \<open>The element-wise comparison \<open>cell == True\<close>.\<close>

fun eq_True :: "val \<Rightarrow> bool" where
  "eq_True (Bool b) = b"
| "eq_True (Num x) = (x = 1)"
| "eq_True _ = False"

text \<open>
  \<open>left.merge(right[["date_key", "year", "month_number", "month_name", "quarter"]],
  on="date_key", how="left")\<close>: every left row, in order, once for each right row with
  the same \<open>date_key\<close> (carrying that row's four columns), or once with the four columns
  null when no right row matches.
\<close>

definition attach_date :: "row \<Rightarrow> row \<Rightarrow> row" where
  "attach_date l d = l(''year'' := d ''year'', ''month_number'' := d ''month_number'',
                       ''month_name'' := d ''month_name'', ''quarter'' := d ''quarter'')"

definition merge_left :: "frame \<Rightarrow> frame \<Rightarrow> frame" where
  "merge_left left right =
     concat (map (\<lambda>l.
       let ms = filter (\<lambda>d. d ''date_key'' = l ''date_key'') right
       in if ms = [] then [attach_date l (\<lambda>c. NaN)] else map (attach_date l) ms) left)"

text \<open>
  \<open>KPICalculator.__init__\<close>, after the two frames and the catalog are loaded: the
  revenue-eligible rows are selected and enriched with the date columns.
\<close>

definition KPICalculator_init :: "frame \<Rightarrow> frame \<Rightarrow> kpi_def list \<Rightarrow> KPICalculator" where
  "KPICalculator_init fact_sales dates defs =
     \<lparr> fact = fact_sales, dim_date = dates, kpi_defs = defs,
       eligible = merge_left (filter (\<lambda>r. eq_True (r ''is_revenue_eligible'')) fact_sales) dates,
       results = [] \<rparr>"

text \<open>\<open>Series.sum()\<close> (null cells are skipped, the empty sum is 0) and \<open>Series.nunique()\<close>
  (the number of distinct non-null cells).\<close>

definition series_sum :: "val list \<Rightarrow> real" where
  "series_sum vs = sum_list (map (\<lambda>v. case as_num v of Some x \<Rightarrow> x | None \<Rightarrow> 0) vs)"

definition nunique :: "val list \<Rightarrow> nat" where
  "nunique vs = length (remdups (filter (\<lambda>v. \<not> isnull v) vs))"

text \<open>
  Division. HOL's \<open>x / 0\<close> is 0, so a division of the source is written with
  \<open>fdiv\<close>, which makes a zero divisor visible as an error value.
\<close>

definition fdiv :: "real \<Rightarrow> real \<Rightarrow> error + real" where
  "fdiv a b = (if b = 0 then Inl ZeroDivisionError else Inr (a / b))"

definition times100 :: "error + real \<Rightarrow> error + pyfloat" where
  "times100 q = (case q of Inl e \<Rightarrow> Inl e | Inr x \<Rightarrow> Inr (Some (x * 100)))"

definition as_float :: "error + real \<Rightarrow> error + pyfloat" where
  "as_float q = (case q of Inl e \<Rightarrow> Inl e | Inr x \<Rightarrow> Inr (Some x))"

text \<open>
  \<open>Series.mean()\<close>: the mean of the non-null cells; pandas returns NaN when there are
  none (its own guard \<open>the_sum / count if count > 0 else nan\<close>).
\<close>

definition series_mean :: "val list \<Rightarrow> error + pyfloat" where
  "series_mean vs =
     (let xs = filter (\<lambda>v. as_num v \<noteq> None) vs
      in if length xs > 0 then as_float (fdiv (series_sum xs) (real (length xs)))
         else Inr None)"

text \<open>
  \<open>df.groupby(keys)[col].sum()\<close>: rows with a null key are left out; the result has one
  entry per distinct key, holding the sum of the column over the rows of that key.
\<close>

definition group_sum :: "frame \<Rightarrow> (row \<Rightarrow> 'k option) \<Rightarrow> string \<Rightarrow> ('k \<times> real) list" where
  "group_sum df key col =
     map (\<lambda>k. (k, series_sum (column (filter (\<lambda>r. key r = Some k) df) col)))
         (remdups (List.map_filter key df))"

definition month_key :: "row \<Rightarrow> (real \<times> real) option" where
  "month_key r = (case (as_num (r ''year''), as_num (r ''month_number'')) of
                    (Some y, Some m) \<Rightarrow> Some (y, m) | _ \<Rightarrow> None)"

definition product_group_key :: "row \<Rightarrow> val option" where
  "product_group_key r = (if isnull (r ''product_key'') then None else Some (r ''product_key''))"

subsection \<open>Core KPI methods\<close>

definition kpi_total_revenue :: "KPICalculator \<Rightarrow> error + pyfloat" where
  "kpi_total_revenue self = Inr (Some (series_sum (column (eligible self) ''sales_amount'')))"

definition kpi_gross_margin_pct :: "KPICalculator \<Rightarrow> error + pyfloat" where
  "kpi_gross_margin_pct self =
     (let total_rev = series_sum (column (eligible self) ''sales_amount'');
          total_gm = series_sum (column (eligible self) ''gross_margin'')
      in if total_rev > 0 then times100 (fdiv total_gm total_rev) else Inr (Some 0))"

definition monthly_revenue :: "KPICalculator \<Rightarrow> ((real \<times> real) \<times> real) list" where
  "monthly_revenue self = sort_key fst (group_sum (eligible self) month_key ''sales_amount'')"

definition kpi_revenue_growth_mom :: "KPICalculator \<Rightarrow> error + pyfloat" where
  "kpi_revenue_growth_mom self =
     (let monthly = monthly_revenue self
      in if length monthly < 2 then Inr (Some 0)
         else let cur = snd (monthly ! (length monthly - 1));
                  prev = snd (monthly ! (length monthly - 2))
              in if prev > 0 then times100 (fdiv (cur - prev) prev) else Inr (Some 0))"

definition kpi_avg_order_value :: "KPICalculator \<Rightarrow> error + pyfloat" where
  "kpi_avg_order_value self =
     (let total_rev = series_sum (column (eligible self) ''sales_amount'');
          order_count = nunique (column (eligible self) ''order_id'')
      in if order_count > 0 then as_float (fdiv total_rev (real order_count)) else Inr (Some 0))"

definition kpi_target_attainment :: "KPICalculator \<Rightarrow> error + pyfloat" where
  "kpi_target_attainment self =
     (let actual = series_sum (column (eligible self) ''sales_amount'');
          target = series_sum (column (eligible self) ''target_amount'')
      in if target > 0 then times100 (fdiv actual target) else Inr (Some 0))"

definition kpi_total_orders :: "KPICalculator \<Rightarrow> error + pyfloat" where
  "kpi_total_orders self = Inr (Some (real (nunique (column (eligible self) ''order_id''))))"

definition kpi_discount_rate :: "KPICalculator \<Rightarrow> error + pyfloat" where
  "kpi_discount_rate self =
     (case series_mean (column (eligible self) ''discount_pct'') of
        Inl e \<Rightarrow> Inl e
      | Inr m \<Rightarrow> Inr (map_option (\<lambda>x. x * 100) m))"

definition kpi_revenue_per_employee :: "KPICalculator \<Rightarrow> error + pyfloat" where
  "kpi_revenue_per_employee self =
     (let total_rev = series_sum (column (eligible self) ''sales_amount'');
          emp_count = nunique (column (eligible self) ''employee_key'')
      in if emp_count > 0 then as_float (fdiv total_rev (real emp_count)) else Inr (Some 0))"

definition kpi_customer_count :: "KPICalculator \<Rightarrow> error + pyfloat" where
  "kpi_customer_count self = Inr (Some (real (nunique (column (eligible self) ''customer_key''))))"

definition by_product :: "KPICalculator \<Rightarrow> real list" where
  "by_product self =
     rev (sort (map snd (group_sum (eligible self) product_group_key ''sales_amount'')))"

definition kpi_top10_revenue_share :: "KPICalculator \<Rightarrow> error + pyfloat" where
  "kpi_top10_revenue_share self =
     (let total_rev = sum_list (by_product self);
          top10_rev = sum_list (take 10 (by_product self))
      in if total_rev > 0 then times100 (fdiv top10_rev total_rev) else Inr (Some 0))"

subsection \<open>The dispatcher\<close>

definition KPI_MAP :: "(string \<times> (KPICalculator \<Rightarrow> error + pyfloat)) list" where
  "KPI_MAP =
     [(''KPI-001'', kpi_total_revenue),
      (''KPI-002'', kpi_gross_margin_pct),
      (''KPI-003'', kpi_revenue_growth_mom),
      (''KPI-004'', kpi_avg_order_value),
      (''KPI-005'', kpi_target_attainment),
      (''KPI-006'', kpi_total_orders),
      (''KPI-007'', kpi_discount_rate),
      (''KPI-008'', kpi_revenue_per_employee),
      (''KPI-009'', kpi_customer_count),
      (''KPI-010'', kpi_top10_revenue_share)]"

text \<open>
  \<open>round(value, ndigits)\<close>: the nearest multiple of \<open>10^-ndigits\<close>, a tie going to the
  even one; NaN stays NaN.
\<close>

definition round_half_even :: "real \<Rightarrow> int" where
  "round_half_even x =
     (let f = \<lfloor>x\<rfloor>; d = x - of_int f
      in if d < 1/2 then f else if d > 1/2 then f + 1
         else if even f then f else f + 1)"

definition py_round :: "pyfloat \<Rightarrow> nat \<Rightarrow> pyfloat" where
  "py_round v ndigits =
     map_option (\<lambda>x. of_int (round_half_even (x * 10 ^ ndigits)) / 10 ^ ndigits) v"

text \<open>The record built for one catalog entry from its value and status.\<close>

definition result_record :: "kpi_def \<Rightarrow> pyfloat \<Rightarrow> string \<Rightarrow> kpi_result" where
  "result_record d v status =
     \<lparr> res_kpi_id = kd_id d, res_kpi_name = kd_name d, res_category = kd_category d,
       res_value = py_round v 4, res_unit = kd_unit d, res_rag_status = status,
       res_formula = kd_formula d \<rparr>"

definition get_thresholds :: "kpi_def \<Rightarrow> thresholds" where
  "get_thresholds d = (case kd_thresholds d of None \<Rightarrow> [] | Some t \<Rightarrow> t)"

definition get_trend_direction :: "kpi_def \<Rightarrow> string" where
  "get_trend_direction d = (case kd_trend_direction d of None \<Rightarrow> [] | Some s \<Rightarrow> s)"

text \<open>
  The loop of \<open>calculate_all\<close> over the catalog entries still to be visited; the
  calculator carries \<open>self.results\<close>. An exception ends the run.
\<close>

fun calculate_loop :: "KPICalculator \<Rightarrow> kpi_def list \<Rightarrow> error + KPICalculator" where
  "calculate_loop self [] = Inr self"
| "calculate_loop self (d # ds) =
     (case map_of KPI_MAP (kd_id d) of
        None \<Rightarrow> calculate_loop self ds
      | Some fn \<Rightarrow>
         (case fn self of
            Inl e \<Rightarrow> Inl e
          | Inr v \<Rightarrow>
             (case rag_status v (get_thresholds d) (get_trend_direction d) of
                Inl e \<Rightarrow> Inl e
              | Inr status \<Rightarrow>
                 calculate_loop (self\<lparr>results := results self @ [result_record d v status]\<rparr>) ds)))"

text \<open>
  \<open>calculate_all\<close>: the value returned is \<open>self.results\<close>; the calculator it leaves
  behind is returned with it.
\<close>

definition calculate_all :: "KPICalculator \<Rightarrow> error + (kpi_result list \<times> KPICalculator)" where
  "calculate_all self =
     (case calculate_loop self (kpi_defs self) of
        Inl e \<Rightarrow> Inl e
      | Inr self' \<Rightarrow> Inr (results self', self'))"

section \<open>The checks as the specification words them\<close>

text \<open>
  The result a no-nulls check is claimed to add for a column: it passes exactly when the
  number of null cells of the column is zero.
\<close>

definition null_check :: "frame \<Rightarrow> string \<Rightarrow> string \<Rightarrow> ValidationResult" where
  "null_check df tbl col =
     \<lparr> check_name = No_nulls col, table = tbl,
       passed = (length (filter isnull (column df col)) = 0),
       severity = ''ERROR'', row_count = length (filter isnull (column df col)) \<rparr>"

text \<open>
  The result a duplicate-key check is claimed to add: it passes exactly when no value of
  the key column occurs twice.
\<close>

definition pk_check :: "frame \<Rightarrow> string \<Rightarrow> string \<Rightarrow> ValidationResult" where
  "pk_check df tbl pk =
     \<lparr> check_name = No_duplicate_pk pk, table = tbl,
       passed = distinct (column df pk),
       severity = ''ERROR'', row_count = count_true (duplicated (column df pk)) \<rparr>"

text \<open>
  A cell is out of range only when it is a number strictly below the lower bound or
  strictly above the upper bound, for the bounds that are given; the result a range
  check is claimed to add counts the rows whose cell is out of range.
\<close>

definition spec_out_of_range :: "val \<Rightarrow> real option \<Rightarrow> real option \<Rightarrow> bool" where
  "spec_out_of_range v min_val max_val =
     (case v of
        Num x \<Rightarrow> (case min_val of None \<Rightarrow> False | Some lo \<Rightarrow> x < lo)
                  \<or> (case max_val of None \<Rightarrow> False | Some hi \<Rightarrow> x > hi)
      | _ \<Rightarrow> False)"

definition range_check ::
  "frame \<Rightarrow> string \<Rightarrow> string \<Rightarrow> real option \<Rightarrow> real option \<Rightarrow> string \<Rightarrow> ValidationResult" where
  "range_check df tbl col min_val max_val sev =
     (let n = length (filter (\<lambda>r. spec_out_of_range (r col) min_val max_val) df)
      in \<lparr> check_name = Range col min_val max_val, table = tbl, passed = (n = 0),
           severity = sev, row_count = n \<rparr>)"

section \<open>The transform stage as the specification words it\<close>

text \<open>
  The row an input row becomes when its numeric columns are cast, and the row it becomes
  when the eligibility flag is then set.
\<close>

definition cast_row :: "(string \<Rightarrow> real option) \<Rightarrow> row \<Rightarrow> row" where
  "cast_row parse r = (\<lambda>c. if c \<in> set numeric_cols then to_numeric parse (r c) else r c)"

definition flag_row :: "row \<Rightarrow> row" where
  "flag_row r = r(''is_revenue_eligible'' := Bool (r ''order_status'' \<noteq> Str ''Cancelled''))"

text \<open>
  The five foreign-key memberships of a fact row in the key columns of the dimensions.
\<close>

definition fk_valid :: "row \<Rightarrow> frame \<Rightarrow> frame \<Rightarrow> frame \<Rightarrow> frame \<Rightarrow> frame \<Rightarrow> bool" where
  "fk_valid r dates products customers employees regions =
     (r ''date_key'' \<in> set (column dates ''date_key'') \<and>
      r ''product_key'' \<in> set (column products ''product_key'') \<and>
      r ''customer_key'' \<in> set (column customers ''customer_key'') \<and>
      r ''employee_key'' \<in> set (column employees ''employee_key'') \<and>
      r ''region_key'' \<in> set (column regions ''region_key''))"

text \<open>
  The row survives the null-measure drop: its three critical measures are not null
  after the cast.
\<close>

definition measures_present :: "(string \<Rightarrow> real option) \<Rightarrow> row \<Rightarrow> bool" where
  "measures_present parse r =
     (to_numeric parse (r ''sales_amount'') \<noteq> NaN \<and>
      to_numeric parse (r ''cogs'') \<noteq> NaN \<and>
      to_numeric parse (r ''quantity'') \<noteq> NaN)"

text \<open>
  The row a product row becomes in \<open>transform_dim_product\<close>.
\<close>

definition product_row :: "(string \<Rightarrow> real option) \<Rightarrow> row \<Rightarrow> row" where
  "product_row parse r =
     r(''unit_cost'' := to_numeric parse (r ''unit_cost''),
       ''list_price'' := to_numeric parse (r ''list_price''),
       ''is_active'' := astype_bool (r ''is_active''))"

text \<open>
  The date row a fact row is merged with when the date keys are unique: the row of the
  same key, or the all-null row when there is none.
\<close>

definition matching_date :: "frame \<Rightarrow> row \<Rightarrow> row" where
  "matching_date right l =
     (case find (\<lambda>d. d ''date_key'' = l ''date_key'') right of
        None \<Rightarrow> (\<lambda>c. NaN) | Some d \<Rightarrow> d)"

section \<open>The dispatcher as the specification words it\<close>

text \<open>
  A catalog entry whose id appears in \<open>KPI_MAP\<close>.
\<close>

definition in_KPI_MAP :: "kpi_def \<Rightarrow> bool" where
  "in_KPI_MAP d = (kd_id d \<in> set (map fst KPI_MAP))"

text \<open>
  A thresholds dictionary on which \<open>rag_status\<close> raises no KeyError: empty, or with the
  three levels it reads.
\<close>

definition wf_thresholds :: "thresholds \<Rightarrow> bool" where
  "wf_thresholds t =
     (t = [] \<or> (map_of t ''excellent'' \<noteq> None \<and> map_of t ''good'' \<noteq> None
                \<and> map_of t ''warning'' \<noteq> None))"

text \<open>
  The record \<open>r\<close> is the one produced for the catalog entry \<open>d\<close>: it carries the entry's
  id, name, category, unit and formula, the value of the entry's method rounded to four
  decimal places, and the status \<open>rag_status\<close> gives that value.
\<close>

definition produced :: "KPICalculator \<Rightarrow> kpi_def \<Rightarrow> kpi_result \<Rightarrow> bool" where
  "produced self d r =
     (\<exists>fn v status.
        map_of KPI_MAP (kd_id d) = Some fn \<and> fn self = Inr v
        \<and> rag_status v (get_thresholds d) (get_trend_direction d) = Inr status
        \<and> r = \<lparr> res_kpi_id = kd_id d, res_kpi_name = kd_name d, res_category = kd_category d,
                res_value = py_round v 4, res_unit = kd_unit d, res_rag_status = status,
                res_formula = kd_formula d \<rparr>)"

section \<open>Sample data\<close>

text \<open>The thresholds of the unit tests \<open>test_rag_status_*\<close>.\<close>

definition test_thresholds :: thresholds where
  "test_thresholds =
     [(''excellent'', \<lparr>thr_operator = ''>='', thr_value = 10000000\<rparr>),
      (''good'',      \<lparr>thr_operator = ''>='', thr_value = 7000000\<rparr>),
      (''warning'',   \<lparr>thr_operator = ''>='', thr_value = 4000000\<rparr>),
      (''critical'',  \<lparr>thr_operator = ''<'',  thr_value = 4000000\<rparr>)]"

text \<open>A row given by some of its cells; every other column is null.\<close>

definition mk_row :: "(string \<times> val) list \<Rightarrow> row" where
  "mk_row cells = (\<lambda>c. case map_of cells c of Some v \<Rightarrow> v | None \<Rightarrow> NaN)"

text \<open>A report with a passed error-level check and a failed warning-level check.\<close>

definition sample_report :: ValidationReport where
  "sample_report =
     \<lparr> vresults =
        [\<lparr> check_name = No_nulls ''date_key'', table = ''dim_date'', passed = True,
            severity = ''ERROR'', row_count = 0 \<rparr>,
         \<lparr> check_name = Named ''list_price >= unit_cost'', table = ''dim_product'', passed = False,
            severity = ''WARNING'', row_count = 3 \<rparr>] \<rparr>"

text \<open>A failed warning-level result.\<close>

definition sample_warning :: ValidationResult where
  "sample_warning =
     \<lparr> check_name = Named ''valid_segment_values'', table = ''dim_customer'', passed = False,
       severity = ''WARNING'', row_count = 2 \<rparr>"

text \<open>Two regions sharing a key, the second without a currency.\<close>

definition sample_regions :: frame where
  "sample_regions =
     [mk_row [(''region_key'', Num 1), (''country'', Str ''FR''), (''region'', Str ''EMEA''),
              (''city'', Str ''Paris''), (''currency'', Str ''EUR'')],
      mk_row [(''region_key'', Num 1), (''country'', Str ''DE''), (''region'', Str ''EMEA''),
              (''city'', Str ''Bonn'')]]"

text \<open>
  A parser that knows one numeral, and small raw tables: dates with a repeated key,
  products with an unreadable and a missing price, and four fact lines (valid, orphan
  date, null amount, cancelled).
\<close>

definition parse0 :: "string \<Rightarrow> real option" where
  "parse0 s = (if s = ''100.5'' then Some (201/2) else None)"

definition sample_dates :: frame where
  "sample_dates =
     [mk_row [(''date_key'', Num 20250101), (''year'', Num 2025), (''month_number'', Num 1)],
      mk_row [(''date_key'', Num 20250101), (''year'', Num 2025), (''month_number'', Num 1)],
      mk_row [(''date_key'', Num 20250201), (''year'', Num 2025), (''month_number'', Num 2)]]"

definition sample_products :: frame where
  "sample_products =
     [mk_row [(''product_key'', Num 1), (''unit_cost'', Str ''100.5''), (''list_price'', Num 200)],
      mk_row [(''product_key'', Num 2), (''unit_cost'', Str ''n/a''), (''list_price'', Num 5)],
      mk_row [(''product_key'', Num 3), (''unit_cost'', Num 4)]]"

definition sample_keys :: "string \<Rightarrow> frame" where
  "sample_keys col = [mk_row [(col, Num 1)]]"

definition sale :: "real \<Rightarrow> real \<Rightarrow> val \<Rightarrow> string \<Rightarrow> row" where
  "sale key date amount status =
     mk_row [(''sales_key'', Num key), (''order_id'', Str ''ORD-001''), (''date_key'', Num date),
             (''product_key'', Num 1), (''customer_key'', Num 1), (''employee_key'', Num 1),
             (''region_key'', Num 1), (''quantity'', Num 2), (''sales_amount'', amount),
             (''cogs'', Num 600), (''order_status'', Str status)]"

definition sample_fact :: frame where
  "sample_fact =
     [sale 1 20250101 (Num 1000) ''Delivered'',
      sale 2 20250103 (Num 500) ''Delivered'',
      sale 3 20250101 NaN ''Delivered'',
      sale 4 20250201 (Num 500) ''Cancelled'']"

text \<open>
  The sample tables after the transform stage.
\<close>

definition sample_dates_clean :: frame where
  "sample_dates_clean =
     drop_duplicates ''date_key''
       (assign ''is_holiday'' astype_bool (assign ''is_weekend'' astype_bool sample_dates))"

definition sample_fact_clean :: frame where
  "sample_fact_clean =
     transform_fact_sales parse0 sample_fact sample_dates_clean sample_products
       (sample_keys ''customer_key'') (sample_keys ''employee_key'') (sample_keys ''region_key'')"

text \<open>
  A calculator over empty tables: its eligible set is empty.
\<close>

definition empty_calc :: KPICalculator where
  "empty_calc = KPICalculator_init [] [] []"

text \<open>
  Three catalog entries, the second with an id the dispatcher does not know, and a
  calculator with one eligible row.
\<close>

definition sample_catalog :: "kpi_def list" where
  "sample_catalog =
     [\<lparr> kd_id = ''KPI-001'', kd_name = ''Total Revenue'', kd_category = ''Revenue'',
         kd_unit = ''currency'', kd_formula = ''SUM(sales_amount)'',
         kd_thresholds = Some test_thresholds, kd_trend_direction = Some ''higher_is_better'' \<rparr>,
      \<lparr> kd_id = ''KPI-999'', kd_name = ''Unknown'', kd_category = ''Other'',
         kd_unit = ''count'', kd_formula = ''N/A'',
         kd_thresholds = Some [], kd_trend_direction = None \<rparr>,
      \<lparr> kd_id = ''KPI-006'', kd_name = ''Total Orders'', kd_category = ''Volume'',
         kd_unit = ''count'', kd_formula = ''COUNT(DISTINCT order_id)'',
         kd_thresholds = None, kd_trend_direction = None \<rparr>]"

definition sample_calc :: KPICalculator where
  "sample_calc =
     \<lparr> fact = [], dim_date = [], kpi_defs = sample_catalog,
       eligible = [mk_row [(''order_id'', Str ''ORD-001''),
                           (''sales_amount'', Num (123456789/100000))]],
       results = [] \<rparr>"

section \<open>Properties of the threshold classification\<close>

lemma check_spec: "check (Some x) (thr_operator e) (thr_value e) = spec_satisfies x e"
  by (simp add: check_def spec_satisfies_def)

text \<open>
  Claim C2. For a numeric value and a thresholds dictionary with excellent, good and
  warning entries, \<open>rag_status\<close> returns GREEN when the value satisfies the excellent
  comparison, else GREEN when it satisfies the good one, else AMBER when it satisfies
  the warning one, else RED; operators other than the five known ones are never
  satisfied (this is in \<open>spec_satisfies\<close>). For the empty dictionary it returns INFO.
\<close>

theorem rag_status_classification:
  "(map_of t ''excellent'' = Some ex \<and> map_of t ''good'' = Some gd
      \<and> map_of t ''warning'' = Some wn \<longrightarrow>
    rag_status (Some x) t direction =
      Inr (if spec_satisfies x ex then ''GREEN''
           else if spec_satisfies x gd then ''GREEN''
           else if spec_satisfies x wn then ''AMBER''
           else ''RED''))
   \<and> rag_status v [] direction = Inr ''INFO''"
proof -
  have "rag_status v [] direction = Inr ''INFO''"
    by (simp add: rag_status_def)
  moreover have "rag_status (Some x) t direction =
      Inr (if spec_satisfies x ex then ''GREEN''
           else if spec_satisfies x gd then ''GREEN''
           else if spec_satisfies x wn then ''AMBER''
           else ''RED'')"
    if h: "map_of t ''excellent'' = Some ex" "map_of t ''good'' = Some gd"
          "map_of t ''warning'' = Some wn"
  proof -
    from h(1) have "t \<noteq> []" by auto
    with h show ?thesis
      by (simp add: rag_status_def lookup_def check_spec)
  qed
  ultimately show ?thesis by blast
qed

theorem rag_status_classification_witness:
  "rag_status (Some 5000000) test_thresholds ''higher_is_better'' = Inr ''AMBER''
   \<and> rag_status (Some 5000000) [] ''higher_is_better'' = Inr ''INFO''"
  using rag_status_classification [of test_thresholds
      "\<lparr>thr_operator = ''>='', thr_value = 10000000\<rparr>"
      "\<lparr>thr_operator = ''>='', thr_value = 7000000\<rparr>"
      "\<lparr>thr_operator = ''>='', thr_value = 4000000\<rparr>"
      5000000 "''higher_is_better''" "Some 5000000"]
  by (simp add: test_thresholds_def spec_satisfies_def)

lemma rag_status_direction: "rag_status v t d1 = rag_status v t d2"
  by (simp add: rag_status_def)

lemma kpi_fn_eligible:
  "map_of KPI_MAP i = Some fn \<Longrightarrow> eligible s1 = eligible s2 \<Longrightarrow> fn s1 = fn s2"
  by (auto simp: KPI_MAP_def kpi_total_revenue_def kpi_gross_margin_pct_def
      kpi_revenue_growth_mom_def monthly_revenue_def kpi_avg_order_value_def
      kpi_target_attainment_def kpi_total_orders_def kpi_discount_rate_def
      kpi_revenue_per_employee_def kpi_customer_count_def kpi_top10_revenue_share_def
      by_product_def split: if_splits)

lemma calculate_loop_direction:
  "calculate_loop self (map (\<lambda>d. d\<lparr>kd_trend_direction := g d\<rparr>) ds) = calculate_loop self ds"
proof (induction ds arbitrary: self)
  case Nil
  show ?case by simp
next
  case (Cons d ds)
  have r: "rag_status v (get_thresholds (d\<lparr>kd_trend_direction := g d\<rparr>))
             (get_trend_direction (d\<lparr>kd_trend_direction := g d\<rparr>))
           = rag_status v (get_thresholds d) (get_trend_direction d)" for v
    by (simp add: rag_status_def get_thresholds_def)
  have rr: "result_record (d\<lparr>kd_trend_direction := g d\<rparr>) v st = result_record d v st" for v st
    by (simp add: result_record_def)
  show ?case
    by (simp add: r rr Cons.IH split: option.splits sum.splits)
qed

lemma calculate_loop_defs:
  "calculate_loop (self\<lparr>kpi_defs := k\<rparr>) ds
     = map_sum id (\<lambda>s. s\<lparr>kpi_defs := k\<rparr>) (calculate_loop self ds)"
proof (induction ds arbitrary: self)
  case Nil
  show ?case by simp
next
  case (Cons d ds)
  show ?case
  proof (cases "map_of KPI_MAP (kd_id d)")
    case None
    then show ?thesis by (simp add: Cons.IH)
  next
    case (Some fn)
    have e: "fn (self\<lparr>kpi_defs := k\<rparr>) = fn self"
      by (rule kpi_fn_eligible [OF Some]) simp
    have u: "self\<lparr>kpi_defs := k, results := rs\<rparr> = (self\<lparr>results := rs\<rparr>)\<lparr>kpi_defs := k\<rparr>" for rs
      by simp
    show ?thesis
      using Some by (simp add: e Cons.IH u del: KPICalculator.update_convs split: sum.splits)
  qed
qed

text \<open>
  Claim C9. \<open>rag_status\<close> does not depend on its direction argument, and the results
  returned by \<open>calculate_all\<close> do not change when the \<open>trend_direction\<close> fields of the
  catalog are replaced by any others.
\<close>

theorem rag_status_ignores_direction:
  "rag_status v t d1 = rag_status v t d2
   \<and> map_sum id fst (calculate_all (self\<lparr>kpi_defs := map (\<lambda>d. d\<lparr>kd_trend_direction := g d\<rparr>) (kpi_defs self)\<rparr>))
     = map_sum id fst (calculate_all self)"
proof -
  have "calculate_loop (self\<lparr>kpi_defs := map (\<lambda>d. d\<lparr>kd_trend_direction := g d\<rparr>) (kpi_defs self)\<rparr>)
          (map (\<lambda>d. d\<lparr>kd_trend_direction := g d\<rparr>) (kpi_defs self))
        = map_sum id (\<lambda>s. s\<lparr>kpi_defs := map (\<lambda>d. d\<lparr>kd_trend_direction := g d\<rparr>) (kpi_defs self)\<rparr>)
            (calculate_loop self (kpi_defs self))"
    by (simp only: calculate_loop_defs calculate_loop_direction)
  then show ?thesis
    by (simp add: calculate_all_def rag_status_direction split: sum.splits)
qed

section \<open>Properties of the validation engine\<close>

lemma print_summary_iff:
  "print_summary report = (\<forall>r\<in>set (vresults report). severity r = ''ERROR'' \<longrightarrow> passed r)"
  by (auto simp: print_summary_def errors_def filter_empty_conv)

lemma run_validation_cases:
  "run_validation d p c e r f =
     (if print_summary (run_checks d p c e r f) then Returned True else SystemExit 1)"
  by (simp add: run_validation_def)

text \<open>
  Claim C3. \<open>print_summary\<close> returns true exactly when every result of severity ERROR
  has passed; adding a result of any other severity, such as a failed WARNING, does not
  change the returned value; and \<open>run_validation\<close> leaves through \<open>sys.exit(1)\<close>
  exactly when \<open>print_summary\<close> returned false on its report, returning true otherwise.
\<close>

theorem validation_succeeds_iff_no_error_failed:
  "print_summary report = (\<forall>r\<in>set (vresults report). severity r = ''ERROR'' \<longrightarrow> passed r)
   \<and> (severity w \<noteq> ''ERROR'' \<longrightarrow> print_summary (add report w) = print_summary report)
   \<and> (run_validation d p c e r f = SystemExit 1 \<longleftrightarrow> \<not> print_summary (run_checks d p c e r f))
   \<and> (run_validation d p c e r f = Returned True \<longleftrightarrow> print_summary (run_checks d p c e r f))
   \<and> (\<forall>n. run_validation d p c e r f = SystemExit n \<longrightarrow> n = 1)"
proof -
  have "severity w \<noteq> ''ERROR'' \<longrightarrow> print_summary (add report w) = print_summary report"
    by (auto simp: print_summary_iff add_def)
  then show ?thesis
    by (simp add: print_summary_iff [symmetric] run_validation_cases)
qed

lemma vresults_add: "vresults (add report x) = vresults report @ [x]"
  by (simp add: add_def)

lemma count_true_map: "count_true (map P xs) = length (filter P xs)"
  by (induction xs) (auto simp: count_true_def)

lemma check_no_nulls_results:
  "vresults (check_no_nulls df tbl cols report) = vresults report @ map (null_check df tbl) cols"
  by (induction cols arbitrary: report)
     (simp_all add: vresults_add null_check_def count_true_map Let_def)

lemma duplicated_from_none:
  "count_true (duplicated_from seen xs) = 0 \<longleftrightarrow> distinct xs \<and> set xs \<inter> set seen = {}"
  by (induction xs arbitrary: seen) (auto simp: count_true_def)

lemma check_no_duplicates_results:
  "vresults (check_no_duplicates df tbl pk report) = vresults report @ [pk_check df tbl pk]"
  by (simp add: check_no_duplicates_def vresults_add pk_check_def Let_def duplicated_def
      duplicated_from_none)

lemma take_results:
  "length xs = n \<Longrightarrow> take n (drop (length pre) (pre @ xs @ rest)) = xs"
  by simp

lemma map_zip_mask:
  "map (\<lambda>(m, v). f m v) (zip (map g xs) xs) = map (\<lambda>v. f (g v) v) xs"
  by (induction xs) simp_all

lemma range_mask_spec:
  "range_mask cells min_val max_val = map (\<lambda>v. spec_out_of_range v min_val max_val) cells"
proof -
  have c: "cell_lt v b = (case v of Num x \<Rightarrow> x < b | _ \<Rightarrow> False)"
          "cell_gt v b = (case v of Num x \<Rightarrow> x > b | _ \<Rightarrow> False)" for v b
    by (cases v; simp add: cell_lt_def cell_gt_def)+
  show ?thesis
    by (cases min_val; cases max_val)
       (auto simp: range_mask_def Let_def map_zip_mask c spec_out_of_range_def split: val.splits)
qed

lemma check_value_range_results:
  "vresults (check_value_range df tbl col min_val max_val report sev)
     = vresults report @ [range_check df tbl col min_val max_val sev]"
  by (simp add: check_value_range_def vresults_add range_check_def Let_def range_mask_spec
      column_def count_true_map filter_map comp_def)

lemma check_fk_integrity_results:
  "\<exists>x. vresults (check_fk_integrity df fk_col ref_df ref_col tbl ref_table report)
     = vresults report @ [x]"
  by (simp add: check_fk_integrity_def vresults_add Let_def)

lemma validate_dim_date_prefix:
  "take 5 (drop (length (vresults r0)) (vresults (validate_dim_date df r0)))
     = map (null_check df ''dim_date'') [''date_key'', ''full_date'', ''year'', ''month_number'']
       @ [pk_check df ''dim_date'' ''date_key'']"
  by (simp add: validate_dim_date_def Let_def vresults_add check_value_range_results
      check_no_duplicates_results check_no_nulls_results del: check_no_nulls.simps)

lemma validate_dim_product_prefix:
  "take 7 (drop (length (vresults r0)) (vresults (validate_dim_product df r0)))
     = map (null_check df ''dim_product'')
         [''product_key'', ''product_id'', ''product_name'', ''category'', ''unit_cost'', ''list_price'']
       @ [pk_check df ''dim_product'' ''product_key'']"
  by (simp add: validate_dim_product_def Let_def vresults_add check_value_range_results
      check_no_duplicates_results check_no_nulls_results del: check_no_nulls.simps)

lemma validate_dim_customer_prefix:
  "take 5 (drop (length (vresults r0)) (vresults (validate_dim_customer df r0)))
     = map (null_check df ''dim_customer'')
         [''customer_key'', ''customer_id'', ''customer_name'', ''segment'']
       @ [pk_check df ''dim_customer'' ''customer_key'']"
  by (simp add: validate_dim_customer_def Let_def vresults_add
      check_no_duplicates_results check_no_nulls_results del: check_no_nulls.simps)

lemma validate_dim_employee_results:
  "vresults (validate_dim_employee df r0)
     = vresults r0 @ map (null_check df ''dim_employee'')
         [''employee_key'', ''employee_id'', ''full_name'', ''department'']
       @ [pk_check df ''dim_employee'' ''employee_key'']"
  by (simp add: validate_dim_employee_def Let_def
      check_no_duplicates_results check_no_nulls_results del: check_no_nulls.simps)

lemma validate_dim_region_results:
  "vresults (validate_dim_region df r0)
     = vresults r0 @ map (null_check df ''dim_region'')
         [''region_key'', ''country'', ''region'', ''city'', ''currency'']
       @ [pk_check df ''dim_region'' ''region_key'']"
  by (simp add: validate_dim_region_def Let_def
      check_no_duplicates_results check_no_nulls_results del: check_no_nulls.simps)

lemma validate_fact_sales_results:
  "\<exists>k1 k2 k3 k4 k5 g s.
    vresults (validate_fact_sales df dd dp dc de dr r0)
     = vresults r0 @ map (null_check df ''fact_sales'')
         [''sales_key'', ''order_id'', ''date_key'', ''product_key'', ''customer_key'',
          ''region_key'', ''employee_key'', ''quantity'', ''unit_price'', ''sales_amount'', ''cogs'']
       @ [pk_check df ''fact_sales'' ''sales_key'', k1, k2, k3, k4, k5,
          range_check df ''fact_sales'' ''quantity'' (Some 1) None ''ERROR'',
          range_check df ''fact_sales'' ''unit_price'' (Some (1/100)) None ''ERROR'',
          range_check df ''fact_sales'' ''discount_pct'' (Some 0) (Some 1) ''ERROR'',
          range_check df ''fact_sales'' ''sales_amount'' (Some 0) None ''ERROR'',
          range_check df ''fact_sales'' ''cogs'' (Some 0) None ''ERROR'', g, s]"
  by (simp add: validate_fact_sales_def Let_def vresults_add check_value_range_results
      check_fk_integrity_def check_no_duplicates_results check_no_nulls_results del: check_no_nulls.simps)

lemma validate_fact_sales_prefix:
  "take 12 (drop (length (vresults r0)) (vresults (validate_fact_sales df dd dp dc de dr r0)))
     = map (null_check df ''fact_sales'')
         [''sales_key'', ''order_id'', ''date_key'', ''product_key'', ''customer_key'',
          ''region_key'', ''employee_key'', ''quantity'', ''unit_price'', ''sales_amount'', ''cogs'']
       @ [pk_check df ''fact_sales'' ''sales_key'']"
  using validate_fact_sales_results [of df dd dp dc de dr r0] by auto

lemma validate_fact_sales_discount:
  "vresults (validate_fact_sales df dd dp dc de dr new_report) ! 19
     = range_check df ''fact_sales'' ''discount_pct'' (Some 0) (Some 1) ''ERROR''"
  using validate_fact_sales_results [of df dd dp dc de dr new_report]
  by (auto simp: new_report_def)

lemmas validate_defs =
  run_checks_def validate_fact_sales_def validate_dim_region_def validate_dim_employee_def
  validate_dim_customer_def validate_dim_product_def validate_dim_date_def
  check_no_duplicates_def check_fk_integrity_def check_value_range_def range_mask_def
  count_true_def duplicated_def column_def add_def new_report_def
  print_summary_def errors_def cell_lt_def cell_gt_def mk_row_def

theorem validation_succeeds_iff_no_error_failed_witness:
  "print_summary sample_report
   \<and> print_summary (add sample_report sample_warning)
   \<and> run_validation [] [] [] [] [] [] = Returned True
   \<and> run_validation [] [] [] [] [] [mk_row []] = SystemExit 1"
proof -
  note t1 = validation_succeeds_iff_no_error_failed
              [of sample_report sample_warning "[]" "[]" "[]" "[]" "[]" "[]"]
  note t2 = validation_succeeds_iff_no_error_failed
              [of sample_report sample_warning "[]" "[]" "[]" "[]" "[]" "[mk_row []]"]
  have a: "print_summary (run_checks [] [] [] [] [] [])"
    by (simp add: validate_defs)
  have b: "\<not> print_summary (run_checks [] [] [] [] [] [mk_row []])"
    by (simp add: validate_defs)
  have c: "print_summary sample_report"
    using t1 by (simp add: sample_report_def)
  have w: "severity sample_warning \<noteq> ''ERROR''"
    by (simp add: sample_warning_def)
  from t1 w c have d: "print_summary (add sample_report sample_warning)"
    by blast
  from t1 a have e: "run_validation [] [] [] [] [] [] = Returned True"
    by blast
  from t2 b have f: "run_validation [] [] [] [] [] [mk_row []] = SystemExit 1"
    by blast
  from c d e f show ?thesis by (intro conjI)
qed

text \<open>
  Claim C6. \<open>check_no_nulls\<close> adds one result per listed column, passing exactly when
  the column has no null cell, and \<open>check_no_duplicates\<close> adds one result, passing
  exactly when the key column has no repeated value. Each of the six table validators
  begins with the no-nulls checks of its listed columns followed by the duplicate check
  of its key.
\<close>

theorem generic_checks_uniform:
  "vresults (check_no_nulls df tbl cols report) = vresults report @ map (null_check df tbl) cols
   \<and> vresults (check_no_duplicates df tbl pk report) = vresults report @ [pk_check df tbl pk]
   \<and> take 5 (drop (length (vresults r0)) (vresults (validate_dim_date df r0)))
       = map (null_check df ''dim_date'') [''date_key'', ''full_date'', ''year'', ''month_number'']
         @ [pk_check df ''dim_date'' ''date_key'']
   \<and> take 7 (drop (length (vresults r0)) (vresults (validate_dim_product df r0)))
       = map (null_check df ''dim_product'')
           [''product_key'', ''product_id'', ''product_name'', ''category'', ''unit_cost'',
            ''list_price'']
         @ [pk_check df ''dim_product'' ''product_key'']
   \<and> take 5 (drop (length (vresults r0)) (vresults (validate_dim_customer df r0)))
       = map (null_check df ''dim_customer'')
           [''customer_key'', ''customer_id'', ''customer_name'', ''segment'']
         @ [pk_check df ''dim_customer'' ''customer_key'']
   \<and> take 5 (drop (length (vresults r0)) (vresults (validate_dim_employee df r0)))
       = map (null_check df ''dim_employee'')
           [''employee_key'', ''employee_id'', ''full_name'', ''department'']
         @ [pk_check df ''dim_employee'' ''employee_key'']
   \<and> take 6 (drop (length (vresults r0)) (vresults (validate_dim_region df r0)))
       = map (null_check df ''dim_region'')
           [''region_key'', ''country'', ''region'', ''city'', ''currency'']
         @ [pk_check df ''dim_region'' ''region_key'']
   \<and> take 12 (drop (length (vresults r0))
         (vresults (validate_fact_sales df dates products customers employees regions r0)))
       = map (null_check df ''fact_sales'')
           [''sales_key'', ''order_id'', ''date_key'', ''product_key'', ''customer_key'',
            ''region_key'', ''employee_key'', ''quantity'', ''unit_price'', ''sales_amount'',
            ''cogs'']
         @ [pk_check df ''fact_sales'' ''sales_key'']"
  by (intro conjI check_no_nulls_results check_no_duplicates_results validate_dim_date_prefix
      validate_dim_product_prefix validate_dim_customer_prefix validate_fact_sales_prefix)
     (simp_all add: validate_dim_employee_results validate_dim_region_results)

theorem generic_checks_uniform_witness:
  "vresults (validate_dim_region sample_regions new_report) =
     [\<lparr> check_name = No_nulls ''region_key'', table = ''dim_region'', passed = True,
         severity = ''ERROR'', row_count = 0 \<rparr>,
      \<lparr> check_name = No_nulls ''country'', table = ''dim_region'', passed = True,
         severity = ''ERROR'', row_count = 0 \<rparr>,
      \<lparr> check_name = No_nulls ''region'', table = ''dim_region'', passed = True,
         severity = ''ERROR'', row_count = 0 \<rparr>,
      \<lparr> check_name = No_nulls ''city'', table = ''dim_region'', passed = True,
         severity = ''ERROR'', row_count = 0 \<rparr>,
      \<lparr> check_name = No_nulls ''currency'', table = ''dim_region'', passed = False,
         severity = ''ERROR'', row_count = 1 \<rparr>,
      \<lparr> check_name = No_duplicate_pk ''region_key'', table = ''dim_region'', passed = False,
         severity = ''ERROR'', row_count = 1 \<rparr>]"
proof -
  have l: "length (vresults (validate_dim_region sample_regions new_report)) = 6"
    by (simp add: validate_dim_region_results new_report_def)
  have "take 6 (drop (length (vresults new_report)) (vresults (validate_dim_region sample_regions new_report)))
       = map (null_check sample_regions ''dim_region'')
           [''region_key'', ''country'', ''region'', ''city'', ''currency'']
         @ [pk_check sample_regions ''dim_region'' ''region_key'']"
    using generic_checks_uniform [of sample_regions undefined "[]" undefined undefined new_report]
    by blast
  with l show ?thesis
    by (simp add: new_report_def null_check_def pk_check_def sample_regions_def mk_row_def
        column_def count_true_def duplicated_def)
qed

text \<open>
  Claim C10. \<open>check_value_range\<close> counts exactly the rows whose cell is a number
  strictly below the lower or strictly above the upper bound. A null cell is never out
  of range, so a column of nulls passes every range check, and in \<open>validate_fact_sales\<close>
  the check of \<open>discount_pct\<close> against 0 and 1 (the twentieth result) passes on a row
  whose \<open>discount_pct\<close> is null.
\<close>

theorem range_check_ignores_nulls:
  "vresults (check_value_range df tbl col min_val max_val report sev)
     = vresults report @ [range_check df tbl col min_val max_val sev]
   \<and> \<not> spec_out_of_range NaN min_val max_val
   \<and> ((\<forall>r\<in>set df. r col = NaN) \<longrightarrow> passed (range_check df tbl col min_val max_val sev))
   \<and> vresults (validate_fact_sales df dates products customers employees regions new_report) ! 19
       = range_check df ''fact_sales'' ''discount_pct'' (Some 0) (Some 1) ''ERROR''
   \<and> (r ''discount_pct'' = NaN \<longrightarrow>
        passed (vresults (validate_fact_sales [r] dates products customers employees regions
                            new_report) ! 19))"
proof -
  have a: "\<not> spec_out_of_range NaN lo hi" for lo hi
    by (simp add: spec_out_of_range_def)
  have b: "(\<forall>r\<in>set df. r col = NaN) \<longrightarrow> passed (range_check df tbl col min_val max_val sev)"
    by (auto simp: range_check_def Let_def filter_empty_conv a)
  have c: "r ''discount_pct'' = NaN \<longrightarrow>
        passed (vresults (validate_fact_sales [r] dates products customers employees regions
                            new_report) ! 19)"
    by (simp add: validate_fact_sales_discount range_check_def a)
  show ?thesis
    using a b c by (simp add: check_value_range_results validate_fact_sales_discount)
qed

theorem range_check_ignores_nulls_witness:
  "mk_row [(''discount_pct'', NaN)] ''discount_pct'' = NaN
   \<and> passed (vresults (validate_fact_sales [mk_row [(''discount_pct'', NaN)]] [] [] [] [] []
                new_report) ! 19)
   \<and> row_count (vresults (validate_fact_sales
                [mk_row [(''discount_pct'', NaN)], mk_row [(''discount_pct'', Num (3/2))]]
                [] [] [] [] [] new_report) ! 19) = 1
   \<and> passed (last (vresults (check_value_range [mk_row [], mk_row []] ''dim_date'' ''year''
                (Some 2000) (Some 2030) new_report ''ERROR'')))"
proof -
  have h: "mk_row [(''discount_pct'', NaN)] ''discount_pct'' = NaN"
    by (simp add: mk_row_def)
  have n: "\<forall>r\<in>set [mk_row [], mk_row []]. r ''year'' = NaN"
    by (simp add: mk_row_def)
  have c: "row_count (range_check [mk_row [(''discount_pct'', NaN)], mk_row [(''discount_pct'', Num (3/2))]]
          ''fact_sales'' ''discount_pct'' (Some 0) (Some 1) ''ERROR'') = 1"
    by (simp add: range_check_def spec_out_of_range_def mk_row_def)
  note t1 = range_check_ignores_nulls
      [where df = "[mk_row [(''discount_pct'', NaN)], mk_row [(''discount_pct'', Num (3/2))]]"
        and dates = "[]" and products = "[]" and customers = "[]" and employees = "[]"
        and regions = "[]" and r = "mk_row [(''discount_pct'', NaN)]"]
  note t2 = range_check_ignores_nulls
      [where df = "[mk_row [], mk_row []]" and tbl = "''dim_date''" and col = "''year''"
        and min_val = "Some 2000" and max_val = "Some 2030" and report = new_report
        and sev = "''ERROR''"]
  from t1 h have a: "passed (vresults (validate_fact_sales [mk_row [(''discount_pct'', NaN)]]
                [] [] [] [] [] new_report) ! 19)"
    by blast
  from t1 c have b: "row_count (vresults (validate_fact_sales
                [mk_row [(''discount_pct'', NaN)], mk_row [(''discount_pct'', Num (3/2))]]
                [] [] [] [] [] new_report) ! 19) = 1"
    by simp
  from t2 n have "passed (range_check [mk_row [], mk_row []] ''dim_date'' ''year''
                (Some 2000) (Some 2030) ''ERROR'')"
    by blast
  with t2 have d: "passed (last (vresults (check_value_range [mk_row [], mk_row []] ''dim_date''
                ''year'' (Some 2000) (Some 2030) new_report ''ERROR'')))"
    by simp
  from h a b d show ?thesis by (intro conjI)
qed

section \<open>Properties of the transform stage\<close>

lemma isnull_iff: "isnull v \<longleftrightarrow> v = NaN"
  by (cases v) simp_all

lemma cast_numeric_map: "cast_numeric parse df = map (cast_row parse) df"
  by (simp add: cast_numeric_def numeric_cols_def assign_def cast_row_def fun_eq_iff)

lemma fk_filter_spec:
  "fk_filter df dates products customers employees regions
     = filter (\<lambda>r. fk_valid r dates products customers employees regions) df"
  by (simp add: fk_filter_def fk_valid_def Let_def)

lemma fk_valid_cast:
  "fk_valid (cast_row parse r) dd dp dc de dr = fk_valid r dd dp dc de dr"
  by (simp add: fk_valid_def cast_row_def numeric_cols_def)

lemma fk_valid_flag:
  "fk_valid (flag_row r) dd dp dc de dr = fk_valid r dd dp dc de dr"
  by (simp add: fk_valid_def flag_row_def)

lemma measures_cast:
  "list_all (\<lambda>c. \<not> isnull (flag_row (cast_row parse r) c)) [''sales_amount'', ''cogs'', ''quantity'']
     = measures_present parse r"
  by (simp add: measures_present_def flag_row_def cast_row_def numeric_cols_def isnull_iff)

lemma transform_fact_sales_steps:
  "transform_fact_sales parse df dd dp dc de dr
     = map flag_row
         (filter (\<lambda>r. \<not> isnull (r ''sales_amount'') \<and> \<not> isnull (r ''cogs'') \<and> \<not> isnull (r ''quantity''))
           (fk_filter (cast_numeric parse df) dd dp dc de dr))"
  by (simp add: transform_fact_sales_def dropna_def set_revenue_eligible_def filter_map comp_def
      flag_row_def [abs_def])

lemma transform_fact_sales_spec:
  "transform_fact_sales parse df dd dp dc de dr
     = map (\<lambda>r. flag_row (cast_row parse r))
         (filter (\<lambda>r. fk_valid r dd dp dc de dr \<and> measures_present parse r) df)"
proof -
  have "transform_fact_sales parse df dd dp dc de dr
     = filter (\<lambda>r. list_all (\<lambda>c. \<not> isnull (r c)) [''sales_amount'', ''cogs'', ''quantity''])
         (map flag_row (filter (\<lambda>r. fk_valid r dd dp dc de dr) (map (cast_row parse) df)))"
    by (simp add: transform_fact_sales_def dropna_def set_revenue_eligible_def fk_filter_spec
        cast_numeric_map flag_row_def [abs_def])
  also have "\<dots> = map (\<lambda>r. flag_row (cast_row parse r))
         (filter (\<lambda>r. fk_valid r dd dp dc de dr \<and> measures_present parse r) df)"
    unfolding filter_map comp_def fk_valid_cast measures_cast map_map filter_filter
    by (simp add: conj_commute)
  finally show ?thesis .
qed

lemma to_numeric_null:
  "to_numeric parse v = NaN \<longleftrightarrow> v = NaN \<or> (\<exists>s. v = Str s \<and> parse s = None)"
  by (cases v) (auto split: option.splits)

lemma transform_dim_product_spec:
  "transform_dim_product parse df
     = map (product_row parse)
         (filter (\<lambda>r. to_numeric parse (r ''unit_cost'') \<noteq> NaN
                      \<and> to_numeric parse (r ''list_price'') \<noteq> NaN) df)"
  by (simp add: transform_dim_product_def dropna_def assign_def filter_map comp_def isnull_iff
      product_row_def [abs_def])

text \<open>
  Claim C1. Every row of the result of \<open>transform_fact_sales\<close> has its five keys in the
  key columns of the five dimensions. The result is, in order, the image of exactly the
  input rows that satisfy the five memberships and keep their three critical measures
  after the cast: an input row violating a membership is absent from the result, and an
  input row satisfying all five and surviving the null-measure drop is retained.
\<close>

theorem fact_sales_referential_integrity:
  "(\<forall>x\<in>set (transform_fact_sales parse df dates products customers employees regions).
      x ''date_key'' \<in> set (column dates ''date_key'') \<and>
      x ''product_key'' \<in> set (column products ''product_key'') \<and>
      x ''customer_key'' \<in> set (column customers ''customer_key'') \<and>
      x ''employee_key'' \<in> set (column employees ''employee_key'') \<and>
      x ''region_key'' \<in> set (column regions ''region_key''))
   \<and> transform_fact_sales parse df dates products customers employees regions
       = map (\<lambda>r. flag_row (cast_row parse r))
           (filter (\<lambda>r. fk_valid r dates products customers employees regions
                          \<and> measures_present parse r) df)
   \<and> (r \<in> set df \<and> \<not> fk_valid r dates products customers employees regions \<longrightarrow>
        flag_row (cast_row parse r)
          \<notin> set (transform_fact_sales parse df dates products customers employees regions))
   \<and> (r \<in> set df \<and> fk_valid r dates products customers employees regions
        \<and> measures_present parse r \<longrightarrow>
        flag_row (cast_row parse r)
          \<in> set (transform_fact_sales parse df dates products customers employees regions))"
proof -
  let ?res = "transform_fact_sales parse df dates products customers employees regions"
  have eq: "?res = map (\<lambda>r. flag_row (cast_row parse r))
           (filter (\<lambda>r. fk_valid r dates products customers employees regions
                          \<and> measures_present parse r) df)"
    by (rule transform_fact_sales_spec)
  have keep: "fk_valid (flag_row (cast_row parse y)) dates products customers employees regions
      = fk_valid y dates products customers employees regions" for y
    by (simp add: fk_valid_flag fk_valid_cast)
  have mem: "\<forall>x\<in>set ?res. fk_valid x dates products customers employees regions"
    unfolding eq by (auto simp: keep)
  have absent: "flag_row (cast_row parse r) \<notin> set ?res"
    if "\<not> fk_valid r dates products customers employees regions"
    using that mem keep by blast
  have retained: "flag_row (cast_row parse r) \<in> set ?res"
    if "r \<in> set df" "fk_valid r dates products customers employees regions"
       "measures_present parse r"
    unfolding eq using that by auto
  from mem have "\<forall>x\<in>set ?res.
      x ''date_key'' \<in> set (column dates ''date_key'') \<and>
      x ''product_key'' \<in> set (column products ''product_key'') \<and>
      x ''customer_key'' \<in> set (column customers ''customer_key'') \<and>
      x ''employee_key'' \<in> set (column employees ''employee_key'') \<and>
      x ''region_key'' \<in> set (column regions ''region_key'')"
    by (simp add: fk_valid_def)
  with eq absent retained show ?thesis by blast
qed

text \<open>
  Claim C5. \<open>transform_dim_product\<close> keeps, in order, exactly the rows whose
  \<open>unit_cost\<close> and \<open>list_price\<close> are not null after coercion, where a cell is null after
  coercion exactly when it is missing or is a text that spells no number.
  \<open>transform_fact_sales\<close> keeps, in order, exactly the rows that pass the foreign-key
  filter and have no null \<open>sales_amount\<close>, \<open>cogs\<close> or \<open>quantity\<close>.
\<close>

theorem transform_drops_exactly_invalid_rows:
  "transform_dim_product parse products
     = map (product_row parse)
         (filter (\<lambda>r. to_numeric parse (r ''unit_cost'') \<noteq> NaN
                      \<and> to_numeric parse (r ''list_price'') \<noteq> NaN) products)
   \<and> (to_numeric parse v = NaN \<longleftrightarrow> v = NaN \<or> (\<exists>s. v = Str s \<and> parse s = None))
   \<and> transform_fact_sales parse df dates dim_products customers employees regions
       = map flag_row
           (filter (\<lambda>r. r ''sales_amount'' \<noteq> NaN \<and> r ''cogs'' \<noteq> NaN \<and> r ''quantity'' \<noteq> NaN)
             (fk_filter (cast_numeric parse df) dates dim_products customers employees regions))"
  using transform_dim_product_spec [of parse products] to_numeric_null [of parse v]
    transform_fact_sales_steps [of parse df dates dim_products customers employees regions]
  by (simp add: isnull_iff)

lemma drop_duplicates_from_unseen:
  "x \<in> set (drop_duplicates_from seen col df) \<Longrightarrow> x col \<notin> set seen"
proof (induction df arbitrary: seen)
  case Nil
  then show ?case by simp
next
  case (Cons r df)
  show ?case
  proof (cases "r col \<in> set seen")
    case True
    with Cons.prems have "x \<in> set (drop_duplicates_from seen col df)" by simp
    then show ?thesis by (rule Cons.IH)
  next
    case False
    with Cons.prems have "x = r \<or> x \<in> set (drop_duplicates_from (r col # seen) col df)"
      by simp
    then show ?thesis
    proof
      assume "x = r"
      with False show ?thesis by simp
    next
      assume "x \<in> set (drop_duplicates_from (r col # seen) col df)"
      then have "x col \<notin> set (r col # seen)" by (rule Cons.IH)
      then show ?thesis by simp
    qed
  qed
qed

lemma drop_duplicates_from_distinct:
  "distinct (column (drop_duplicates_from seen col df) col)"
proof (induction df arbitrary: seen)
  case Nil
  show ?case by (simp add: column_def)
next
  case (Cons r df)
  have "x col \<noteq> r col" if "x \<in> set (drop_duplicates_from (r col # seen) col df)" for x
    using drop_duplicates_from_unseen [OF that] by simp
  then have "r col \<notin> (\<lambda>x. x col) ` set (drop_duplicates_from (r col # seen) col df)"
    by (metis (no_types, lifting) imageE)
  with Cons show ?case by (simp add: column_def)
qed

lemma transform_dim_date_distinct:
  "transform_dim_date is_date raw = Inr dates \<Longrightarrow> distinct (column dates ''date_key'')"
  using drop_duplicates_from_distinct [of "[]" "''date_key''"]
  by (auto simp: transform_dim_date_def drop_duplicates_def split: if_splits)

lemma filter_key_distinct:
  "distinct (map f xs) \<Longrightarrow> length (filter (\<lambda>x. f x = k) xs) \<le> 1"
proof (induction xs)
  case Nil
  show ?case by simp
next
  case (Cons a xs)
  show ?case
  proof (cases "f a = k")
    case True
    from Cons.prems have "f a \<notin> f ` set xs" by simp
    with True have "\<forall>x\<in>set xs. f x \<noteq> k" by (metis imageI)
    then have "filter (\<lambda>x. f x = k) xs = []"
      by (simp add: filter_empty_conv)
    with True show ?thesis by simp
  next
    case False
    with Cons show ?thesis by simp
  qed
qed

lemma merge_left_distinct:
  assumes "distinct (column right ''date_key'')"
  shows "merge_left left right = map (\<lambda>l. attach_date l (matching_date right l)) left"
proof -
  have one: "(let ms = filter (\<lambda>d. d ''date_key'' = l ''date_key'') right
       in if ms = [] then [attach_date l (\<lambda>c. NaN)] else map (attach_date l) ms)
      = [attach_date l (matching_date right l)]" for l
  proof -
    have "length (filter (\<lambda>d. d ''date_key'' = l ''date_key'') right) \<le> 1"
      using assms filter_key_distinct [of "\<lambda>d. d ''date_key''" right] by (simp add: column_def)
    then consider "filter (\<lambda>d. d ''date_key'' = l ''date_key'') right = []"
      | d where "filter (\<lambda>d. d ''date_key'' = l ''date_key'') right = [d]"
      by (cases "filter (\<lambda>d. d ''date_key'' = l ''date_key'') right") (auto simp: Suc_le_eq)
    then show ?thesis
    proof cases
      case 1
      then have "find (\<lambda>d. d ''date_key'' = l ''date_key'') right = None"
        by (simp add: find_None_iff filter_empty_conv)
      with 1 show ?thesis by (simp add: matching_date_def)
    next
      case (2 d)
      then have "find (\<lambda>d. d ''date_key'' = l ''date_key'') right = Some d"
        by (induction right) (auto split: if_splits)
      with 2 show ?thesis by (simp add: matching_date_def)
    qed
  qed
  show ?thesis
    unfolding merge_left_def one by (induction left) simp_all
qed

lemma merge_left_column:
  assumes "distinct (column right ''date_key'')"
      and "c \<notin> {''year'', ''month_number'', ''month_name'', ''quarter''}"
  shows "column (merge_left left right) c = column left c"
  using assms(2) by (simp add: merge_left_distinct [OF assms(1)] column_def attach_date_def)

lemmas sample_defs =
  sample_fact_def sale_def sample_keys_def sample_products_def sample_dates_def parse0_def
  mk_row_def

theorem fact_sales_referential_integrity_witness:
  "sale 2 20250103 (Num 500) ''Delivered'' \<in> set sample_fact
   \<and> \<not> fk_valid (sale 2 20250103 (Num 500) ''Delivered'') sample_dates sample_products
         (sample_keys ''customer_key'') (sample_keys ''employee_key'') (sample_keys ''region_key'')
   \<and> flag_row (cast_row parse0 (sale 2 20250103 (Num 500) ''Delivered''))
       \<notin> set (transform_fact_sales parse0 sample_fact sample_dates sample_products
                (sample_keys ''customer_key'') (sample_keys ''employee_key'') (sample_keys ''region_key''))
   \<and> flag_row (cast_row parse0 (sale 1 20250101 (Num 1000) ''Delivered''))
       \<in> set (transform_fact_sales parse0 sample_fact sample_dates sample_products
                (sample_keys ''customer_key'') (sample_keys ''employee_key'') (sample_keys ''region_key''))
   \<and> column (transform_fact_sales parse0 sample_fact sample_dates sample_products
                (sample_keys ''customer_key'') (sample_keys ''employee_key'') (sample_keys ''region_key''))
        ''sales_key'' = [Num 1, Num 4]"
proof -
  have a: "sale 2 20250103 (Num 500) ''Delivered'' \<in> set sample_fact"
    by (simp add: sample_fact_def)
  have b: "\<not> fk_valid (sale 2 20250103 (Num 500) ''Delivered'') sample_dates sample_products
         (sample_keys ''customer_key'') (sample_keys ''employee_key'') (sample_keys ''region_key'')"
    by (simp add: fk_valid_def column_def sample_defs)
  have a1: "sale 1 20250101 (Num 1000) ''Delivered'' \<in> set sample_fact"
    by (simp add: sample_fact_def)
  have b1: "fk_valid (sale 1 20250101 (Num 1000) ''Delivered'') sample_dates sample_products
         (sample_keys ''customer_key'') (sample_keys ''employee_key'') (sample_keys ''region_key'')
        \<and> measures_present parse0 (sale 1 20250101 (Num 1000) ''Delivered'')"
    by (simp add: fk_valid_def measures_present_def column_def sample_defs)
  have c: "column (map (\<lambda>r. flag_row (cast_row parse0 r))
           (filter (\<lambda>r. fk_valid r sample_dates sample_products
                 (sample_keys ''customer_key'') (sample_keys ''employee_key'') (sample_keys ''region_key'')
                          \<and> measures_present parse0 r) sample_fact)) ''sales_key'' = [Num 1, Num 4]"
    by (simp add: fk_valid_def measures_present_def column_def sample_defs flag_row_def
        cast_row_def numeric_cols_def)
  note t = fact_sales_referential_integrity [of parse0 sample_fact sample_dates sample_products
        "sample_keys ''customer_key''" "sample_keys ''employee_key''" "sample_keys ''region_key''"
        "sale 2 20250103 (Num 500) ''Delivered''"]
  note t1 = fact_sales_referential_integrity [of parse0 sample_fact sample_dates sample_products
        "sample_keys ''customer_key''" "sample_keys ''employee_key''" "sample_keys ''region_key''"
        "sale 1 20250101 (Num 1000) ''Delivered''"]
  from t a b have d: "flag_row (cast_row parse0 (sale 2 20250103 (Num 500) ''Delivered''))
       \<notin> set (transform_fact_sales parse0 sample_fact sample_dates sample_products
                (sample_keys ''customer_key'') (sample_keys ''employee_key'') (sample_keys ''region_key''))"
    by (elim conjE) (erule impE, rule conjI, assumption+)
  from t1 have r: "sale 1 20250101 (Num 1000) ''Delivered'' \<in> set sample_fact
        \<and> fk_valid (sale 1 20250101 (Num 1000) ''Delivered'') sample_dates sample_products
         (sample_keys ''customer_key'') (sample_keys ''employee_key'') (sample_keys ''region_key'')
        \<and> measures_present parse0 (sale 1 20250101 (Num 1000) ''Delivered'')
      \<longrightarrow> flag_row (cast_row parse0 (sale 1 20250101 (Num 1000) ''Delivered''))
       \<in> set (transform_fact_sales parse0 sample_fact sample_dates sample_products
                (sample_keys ''customer_key'') (sample_keys ''employee_key'') (sample_keys ''region_key''))"
    by (elim conjE)
  have d1: "flag_row (cast_row parse0 (sale 1 20250101 (Num 1000) ''Delivered''))
       \<in> set (transform_fact_sales parse0 sample_fact sample_dates sample_products
                (sample_keys ''customer_key'') (sample_keys ''employee_key'') (sample_keys ''region_key''))"
    by (rule mp [OF r]) (intro conjI a1 b1 [THEN conjunct1] b1 [THEN conjunct2])
  from t have e: "transform_fact_sales parse0 sample_fact sample_dates sample_products
         (sample_keys ''customer_key'') (sample_keys ''employee_key'') (sample_keys ''region_key'')
       = map (\<lambda>r. flag_row (cast_row parse0 r))
           (filter (\<lambda>r. fk_valid r sample_dates sample_products
                 (sample_keys ''customer_key'') (sample_keys ''employee_key'') (sample_keys ''region_key'')
                          \<and> measures_present parse0 r) sample_fact)"
    by (elim conjE)
  from c have f: "column (transform_fact_sales parse0 sample_fact sample_dates sample_products
                (sample_keys ''customer_key'') (sample_keys ''employee_key'') (sample_keys ''region_key''))
        ''sales_key'' = [Num 1, Num 4]"
    unfolding e .
  from a b d d1 f show ?thesis by (intro conjI)
qed

theorem transform_drops_exactly_invalid_rows_witness:
  "column (transform_dim_product parse0 sample_products) ''product_key'' = [Num 1]
   \<and> column (transform_dim_product parse0 sample_products) ''unit_cost'' = [Num (201/2)]
   \<and> column (transform_fact_sales parse0 sample_fact sample_dates sample_products
                (sample_keys ''customer_key'') (sample_keys ''employee_key'') (sample_keys ''region_key''))
        ''sales_amount'' = [Num 1000, Num 500]"
proof -
  have a: "column (map (product_row parse0)
         (filter (\<lambda>r. to_numeric parse0 (r ''unit_cost'') \<noteq> NaN
                      \<and> to_numeric parse0 (r ''list_price'') \<noteq> NaN) sample_products)) c
      = (if c = ''product_key'' then [Num 1] else if c = ''unit_cost'' then [Num (201/2)]
         else column (map (product_row parse0)
         (filter (\<lambda>r. to_numeric parse0 (r ''unit_cost'') \<noteq> NaN
                      \<and> to_numeric parse0 (r ''list_price'') \<noteq> NaN) sample_products)) c)" for c
    by (simp add: column_def sample_defs product_row_def)
  have b: "column (map flag_row
           (filter (\<lambda>r. r ''sales_amount'' \<noteq> NaN \<and> r ''cogs'' \<noteq> NaN \<and> r ''quantity'' \<noteq> NaN)
             (fk_filter (cast_numeric parse0 sample_fact) sample_dates sample_products
                (sample_keys ''customer_key'') (sample_keys ''employee_key'') (sample_keys ''region_key''))))
        ''sales_amount'' = [Num 1000, Num 500]"
    by (simp add: cast_numeric_map fk_filter_spec fk_valid_def column_def sample_defs flag_row_def
        cast_row_def numeric_cols_def)
  note t = transform_drops_exactly_invalid_rows [of parse0 sample_products NaN sample_fact
        sample_dates sample_products "sample_keys ''customer_key''" "sample_keys ''employee_key''"
        "sample_keys ''region_key''"]
  from t have e1: "transform_dim_product parse0 sample_products
     = map (product_row parse0)
         (filter (\<lambda>r. to_numeric parse0 (r ''unit_cost'') \<noteq> NaN
                      \<and> to_numeric parse0 (r ''list_price'') \<noteq> NaN) sample_products)"
    by (elim conjE)
  from t have e2: "transform_fact_sales parse0 sample_fact sample_dates sample_products
         (sample_keys ''customer_key'') (sample_keys ''employee_key'') (sample_keys ''region_key'')
       = map flag_row
           (filter (\<lambda>r. r ''sales_amount'' \<noteq> NaN \<and> r ''cogs'' \<noteq> NaN \<and> r ''quantity'' \<noteq> NaN)
             (fk_filter (cast_numeric parse0 sample_fact) sample_dates sample_products
                (sample_keys ''customer_key'') (sample_keys ''employee_key'') (sample_keys ''region_key'')))"
    by (elim conjE)
  from a [of "''product_key''"] a [of "''unit_cost''"] b show ?thesis
    unfolding e1 e2 by simp
qed

lemma flagged_rows:
  "x \<in> set (transform_fact_sales parse df dd dp dc de dr) \<Longrightarrow>
     x ''is_revenue_eligible'' = Bool (x ''order_status'' \<noteq> Str ''Cancelled'')
     \<and> (\<exists>a. x ''sales_amount'' = Num a)"
proof -
  assume "x \<in> set (transform_fact_sales parse df dd dp dc de dr)"
  then obtain r where r: "x = flag_row (cast_row parse r)" "measures_present parse r"
    unfolding transform_fact_sales_spec by auto
  from r(2) have "\<exists>a. to_numeric parse (r ''sales_amount'') = Num a"
    by (cases "r ''sales_amount''") (auto simp: measures_present_def split: option.splits)
  with r(1) show ?thesis
    by (simp add: flag_row_def cast_row_def numeric_cols_def)
qed

lemma eligible_filter:
  assumes "\<And>x. x \<in> set fs \<Longrightarrow>
             x ''is_revenue_eligible'' = Bool (x ''order_status'' \<noteq> Str ''Cancelled'')"
  shows "filter (\<lambda>r. eq_True (r ''is_revenue_eligible'')) fs
       = filter (\<lambda>r. r ''order_status'' \<noteq> Str ''Cancelled'') fs"
  by (intro filter_cong refl) (simp add: assms)

text \<open>
  Claim C4. On the tables the transform stage writes, \<open>is_revenue_eligible\<close> is true
  exactly on the rows whose \<open>order_status\<close> is not Cancelled (and every
  \<open>sales_amount\<close> is a number); the working set of the calculator consists of the
  flagged rows, one row each; and \<open>kpi_total_revenue\<close> is the sum of \<open>sales_amount\<close>
  over the rows that are not cancelled.
\<close>

theorem total_revenue_excludes_cancelled:
  assumes "transform_dim_date is_date raw_dates = Inr dates"
      and "fs = transform_fact_sales parse df dates products customers employees regions"
      and "calc = KPICalculator_init fs dates defs"
  shows "(\<forall>x\<in>set fs. x ''is_revenue_eligible'' = Bool (x ''order_status'' \<noteq> Str ''Cancelled'')
                    \<and> (\<exists>a. x ''sales_amount'' = Num a))
       \<and> column (eligible calc) ''is_revenue_eligible''
           = map (\<lambda>r. Bool True) (filter (\<lambda>r. r ''order_status'' \<noteq> Str ''Cancelled'') fs)
       \<and> column (eligible calc) ''sales_amount''
           = column (filter (\<lambda>r. r ''order_status'' \<noteq> Str ''Cancelled'') fs) ''sales_amount''
       \<and> kpi_total_revenue calc
           = Inr (Some (series_sum
               (column (filter (\<lambda>r. r ''order_status'' \<noteq> Str ''Cancelled'') fs) ''sales_amount'')))"
proof -
  have fl1: "x ''is_revenue_eligible'' = Bool (x ''order_status'' \<noteq> Str ''Cancelled'')"
    if "x \<in> set fs" for x
    using that unfolding assms(2) by (rule flagged_rows [THEN conjunct1])
  have fl2: "\<exists>a. x ''sales_amount'' = Num a" if "x \<in> set fs" for x
    using that unfolding assms(2) by (rule flagged_rows [THEN conjunct2])
  have fl: "\<forall>x\<in>set fs. x ''is_revenue_eligible'' = Bool (x ''order_status'' \<noteq> Str ''Cancelled'')
                    \<and> (\<exists>a. x ''sales_amount'' = Num a)"
    by (intro ballI conjI fl1 fl2)
  have d: "distinct (column dates ''date_key'')"
    using assms(1) by (rule transform_dim_date_distinct)
  have el: "eligible calc
      = merge_left (filter (\<lambda>r. r ''order_status'' \<noteq> Str ''Cancelled'') fs) dates"
    by (simp add: assms(3) KPICalculator_init_def eligible_filter [of fs, OF fl1])
  have c1: "column (eligible calc) ''sales_amount''
           = column (filter (\<lambda>r. r ''order_status'' \<noteq> Str ''Cancelled'') fs) ''sales_amount''"
    unfolding el by (rule merge_left_column [OF d]) simp
  have "column (eligible calc) ''is_revenue_eligible''
           = column (filter (\<lambda>r. r ''order_status'' \<noteq> Str ''Cancelled'') fs) ''is_revenue_eligible''"
    unfolding el by (rule merge_left_column [OF d]) simp
  also have "\<dots> = map (\<lambda>r. Bool True) (filter (\<lambda>r. r ''order_status'' \<noteq> Str ''Cancelled'') fs)"
    unfolding column_def by (intro map_cong refl) (simp add: fl1)
  finally have c2: "column (eligible calc) ''is_revenue_eligible''
           = map (\<lambda>r. Bool True) (filter (\<lambda>r. r ''order_status'' \<noteq> Str ''Cancelled'') fs)" .
  have c3: "kpi_total_revenue calc
           = Inr (Some (series_sum
               (column (filter (\<lambda>r. r ''order_status'' \<noteq> Str ''Cancelled'') fs) ''sales_amount'')))"
    by (simp add: kpi_total_revenue_def c1)
  from fl c1 c2 c3 show ?thesis by (intro conjI)
qed

theorem total_revenue_excludes_cancelled_witness:
  "transform_dim_date (\<lambda>v. True) sample_dates = Inr sample_dates_clean
   \<and> length sample_dates_clean = 2
   \<and> column sample_fact_clean ''order_status'' = [Str ''Delivered'', Str ''Cancelled'']
   \<and> column sample_fact_clean ''is_revenue_eligible'' = [Bool True, Bool False]
   \<and> column sample_fact_clean ''sales_amount'' = [Num 1000, Num 500]
   \<and> kpi_total_revenue (KPICalculator_init sample_fact_clean sample_dates_clean []) = Inr (Some 1000)"
proof -
  have a: "transform_dim_date (\<lambda>v. True) sample_dates = Inr sample_dates_clean"
    by (simp add: transform_dim_date_def sample_dates_clean_def list_all_iff)
  have k: "column sample_dates_clean ''date_key'' = [Num 20250101, Num 20250201]"
    by (simp add: sample_dates_clean_def drop_duplicates_def assign_def column_def sample_defs)
  have b: "length sample_dates_clean = 2"
    using arg_cong [OF k, of length] by (simp add: column_def)
  have fs: "sample_fact_clean = map (\<lambda>r. flag_row (cast_row parse0 r))
              [sale 1 20250101 (Num 1000) ''Delivered'', sale 4 20250201 (Num 500) ''Cancelled'']"
    unfolding sample_fact_clean_def transform_fact_sales_spec
    by (simp add: fk_valid_def k measures_present_def)
       (simp add: column_def sample_defs)
  have c: "column sample_fact_clean ''order_status'' = [Str ''Delivered'', Str ''Cancelled'']"
          "column sample_fact_clean ''is_revenue_eligible'' = [Bool True, Bool False]"
          "column sample_fact_clean ''sales_amount'' = [Num 1000, Num 500]"
    unfolding fs
    by (simp_all add: column_def flag_row_def cast_row_def numeric_cols_def sale_def mk_row_def)
  have s: "series_sum (column (filter (\<lambda>r. r ''order_status'' \<noteq> Str ''Cancelled'') sample_fact_clean)
             ''sales_amount'') = 1000"
    unfolding fs
    by (simp add: column_def flag_row_def cast_row_def numeric_cols_def sale_def mk_row_def
        series_sum_def)
  note t = total_revenue_excludes_cancelled [OF a sample_fact_clean_def refl, of "[]"]
  from t have "kpi_total_revenue (KPICalculator_init sample_fact_clean sample_dates_clean [])
           = Inr (Some (series_sum
               (column (filter (\<lambda>r. r ''order_status'' \<noteq> Str ''Cancelled'') sample_fact_clean)
                  ''sales_amount'')))"
    by (elim conjE)
  with s have d: "kpi_total_revenue (KPICalculator_init sample_fact_clean sample_dates_clean [])
           = Inr (Some 1000)"
    by simp
  from a b c d show ?thesis by (intro conjI)
qed

section \<open>Properties of the KPI methods\<close>

lemma fdiv_pos: "b > 0 \<Longrightarrow> fdiv a b = Inr (a / b)"
  by (simp add: fdiv_def)

lemma kpi_total_revenue_total: "\<exists>v. kpi_total_revenue self = Inr v"
  by (simp add: kpi_total_revenue_def)

lemma kpi_gross_margin_pct_total: "\<exists>v. kpi_gross_margin_pct self = Inr v"
  by (simp add: kpi_gross_margin_pct_def Let_def fdiv_pos times100_def)

lemma kpi_revenue_growth_mom_total: "\<exists>v. kpi_revenue_growth_mom self = Inr v"
  by (simp add: kpi_revenue_growth_mom_def Let_def fdiv_pos times100_def)

lemma kpi_avg_order_value_total: "\<exists>v. kpi_avg_order_value self = Inr v"
  by (simp add: kpi_avg_order_value_def Let_def fdiv_pos as_float_def)

lemma kpi_target_attainment_total: "\<exists>v. kpi_target_attainment self = Inr v"
  by (simp add: kpi_target_attainment_def Let_def fdiv_pos times100_def)

lemma kpi_total_orders_total: "\<exists>v. kpi_total_orders self = Inr v"
  by (simp add: kpi_total_orders_def)

lemma series_mean_total: "\<exists>m. series_mean vs = Inr m"
  by (simp add: series_mean_def Let_def fdiv_pos as_float_def)

lemma kpi_discount_rate_total: "\<exists>v. kpi_discount_rate self = Inr v"
  using series_mean_total [of "column (eligible self) ''discount_pct''"]
  by (auto simp: kpi_discount_rate_def)

lemma kpi_revenue_per_employee_total: "\<exists>v. kpi_revenue_per_employee self = Inr v"
  by (simp add: kpi_revenue_per_employee_def Let_def fdiv_pos as_float_def)

lemma kpi_customer_count_total: "\<exists>v. kpi_customer_count self = Inr v"
  by (simp add: kpi_customer_count_def)

lemma kpi_top10_revenue_share_total: "\<exists>v. kpi_top10_revenue_share self = Inr v"
  by (simp add: kpi_top10_revenue_share_def Let_def fdiv_pos times100_def)

lemma kpi_fn_total:
  assumes "fn \<in> set (map snd KPI_MAP)"
  shows "\<exists>v. fn self = Inr v"
proof -
  from assms consider "fn = kpi_total_revenue" | "fn = kpi_gross_margin_pct"
    | "fn = kpi_revenue_growth_mom" | "fn = kpi_avg_order_value" | "fn = kpi_target_attainment"
    | "fn = kpi_total_orders" | "fn = kpi_discount_rate" | "fn = kpi_revenue_per_employee"
    | "fn = kpi_customer_count" | "fn = kpi_top10_revenue_share"
    unfolding KPI_MAP_def by auto
  then show ?thesis
    by cases
      (simp_all only: kpi_total_revenue_total kpi_gross_margin_pct_total
        kpi_revenue_growth_mom_total kpi_avg_order_value_total kpi_target_attainment_total
        kpi_total_orders_total kpi_discount_rate_total kpi_revenue_per_employee_total
        kpi_customer_count_total kpi_top10_revenue_share_total)
qed

lemma sum_list_swap:
  "finite K \<Longrightarrow> sum_list (map (\<lambda>x. \<Sum>k\<in>K. f x k) xs) = (\<Sum>k\<in>K. sum_list (map (\<lambda>x. f x k) xs))"
  by (induction xs) (simp_all add: sum.distrib)

lemma group_total:
  fixes g :: "'a \<Rightarrow> real"
  shows "sum_list (map (\<lambda>k. sum_list (map g (filter (\<lambda>r. key r = Some k) df)))
           (remdups (List.map_filter key df)))
       = sum_list (map g (filter (\<lambda>r. key r \<noteq> None) df))"
proof -
  let ?K = "set (List.map_filter key df)"
  have K: "?K = {k. \<exists>r\<in>set df. key r = Some k}"
    by (induction df) (auto split: option.splits)
  have a: "sum_list (map g (filter (\<lambda>r. key r = Some k) df))
         = sum_list (map (\<lambda>r. if key r = Some k then g r else 0) df)" for k
    by (induction df) simp_all
  have b: "sum_list (map g (filter (\<lambda>r. key r \<noteq> None) df))
         = sum_list (map (\<lambda>r. if key r \<noteq> None then g r else 0) df)"
    by (induction df) simp_all
  have "sum_list (map (\<lambda>k. sum_list (map g (filter (\<lambda>r. key r = Some k) df)))
           (remdups (List.map_filter key df)))
      = (\<Sum>k\<in>?K. sum_list (map (\<lambda>r. if key r = Some k then g r else 0) df))"
    by (simp add: sum_list_distinct_conv_sum_set a)
  also have "\<dots> = sum_list (map (\<lambda>r. \<Sum>k\<in>?K. if key r = Some k then g r else 0) df)"
    by (simp add: sum_list_swap)
  also have "\<dots> = sum_list (map (\<lambda>r. if key r \<noteq> None then g r else 0) df)"
  proof (rule arg_cong [where f = sum_list], rule map_cong [OF refl])
    fix r assume r: "r \<in> set df"
    show "(\<Sum>k\<in>?K. if key r = Some k then g r else 0) = (if key r \<noteq> None then g r else 0)"
    proof (cases "key r")
      case None
      then show ?thesis by simp
    next
      case (Some k0)
      with r have "k0 \<in> ?K" unfolding K by blast
      then have "(\<Sum>k\<in>?K. if k0 = k then g r else 0) = g r"
        by (simp add: sum.delta')
      with Some show ?thesis by simp
    qed
  qed
  finally show ?thesis using b by simp
qed

lemma sum_list_insort: "sum_list (insort x xs) = x + sum_list (xs :: real list)"
  by (induction xs) simp_all

lemma sum_list_rev_sort: "sum_list (rev (sort xs)) = sum_list (xs :: real list)"
  by (induction xs) (simp_all add: sum_list_insort sum_list_rev)

lemma by_product_total:
  "sum_list (by_product self)
     = series_sum (column (filter (\<lambda>r. \<not> isnull (r ''product_key'')) (eligible self))
                     ''sales_amount'')"
proof -
  let ?g = "\<lambda>r::row. case as_num (r ''sales_amount'') of Some x \<Rightarrow> x | None \<Rightarrow> 0"
  have s: "series_sum (column df ''sales_amount'') = sum_list (map ?g df)" for df
    by (simp add: series_sum_def column_def comp_def)
  have k: "(\<exists>y. product_group_key r = Some y) = (\<not> isnull (r ''product_key''))" for r
    by (simp add: product_group_key_def)
  show ?thesis
    unfolding by_product_def sum_list_rev_sort group_sum_def map_map comp_def snd_conv s
    using group_total [of ?g product_group_key "eligible self"]
    by (simp add: k)
qed

lemma length_monthly_revenue:
  "length (monthly_revenue self) = length (remdups (List.map_filter month_key (eligible self)))"
  by (simp add: monthly_revenue_def group_sum_def)

text \<open>
  Claim C8. Each ratio KPI returns 0.0 when its denominator is not positive: total
  revenue for the gross margin, the number of distinct orders for the average order
  value, the total target for the target attainment, the number of distinct employees
  for the revenue per employee, and for the top-10 share the total of the per-product
  revenues (the revenue of the rows that have a product key). The month-over-month growth
  returns 0.0 when fewer than two distinct months exist or the previous month's revenue
  is not positive. Every method of the dispatcher returns a value on every calculator
  and never divides by zero; on an empty eligible set the discount rate is NaN.
\<close>

theorem ratio_kpis_guarded:
  "(series_sum (column (eligible self) ''sales_amount'') \<le> 0 \<longrightarrow>
      kpi_gross_margin_pct self = Inr (Some 0))
   \<and> (\<not> 0 < nunique (column (eligible self) ''order_id'') \<longrightarrow>
      kpi_avg_order_value self = Inr (Some 0))
   \<and> (series_sum (column (eligible self) ''target_amount'') \<le> 0 \<longrightarrow>
      kpi_target_attainment self = Inr (Some 0))
   \<and> (\<not> 0 < nunique (column (eligible self) ''employee_key'') \<longrightarrow>
      kpi_revenue_per_employee self = Inr (Some 0))
   \<and> (sum_list (by_product self) \<le> 0 \<longrightarrow>
      kpi_top10_revenue_share self = Inr (Some 0))
   \<and> sum_list (by_product self)
       = series_sum (column (filter (\<lambda>r. \<not> isnull (r ''product_key'')) (eligible self))
                       ''sales_amount'')
   \<and> (length (remdups (List.map_filter month_key (eligible self))) < 2 \<longrightarrow>
      kpi_revenue_growth_mom self = Inr (Some 0))
   \<and> (snd (monthly_revenue self ! (length (monthly_revenue self) - 2)) \<le> 0 \<longrightarrow>
      kpi_revenue_growth_mom self = Inr (Some 0))
   \<and> (\<forall>fn\<in>set (map snd KPI_MAP). (\<exists>v. fn self = Inr v) \<and> fn self \<noteq> Inl ZeroDivisionError)
   \<and> (eligible self = [] \<longrightarrow> kpi_discount_rate self = Inr None)"
proof -
  have t: "(\<exists>v. fn self = Inr v) \<and> fn self \<noteq> Inl ZeroDivisionError"
    if "fn \<in> set (map snd KPI_MAP)" for fn
    using kpi_fn_total [OF that, of self] by auto
  have g: "length (remdups (List.map_filter month_key (eligible self))) < 2 \<longrightarrow>
      kpi_revenue_growth_mom self = Inr (Some 0)"
    by (simp add: kpi_revenue_growth_mom_def Let_def length_monthly_revenue)
  have e: "eligible self = [] \<longrightarrow> kpi_discount_rate self = Inr None"
    by (simp add: kpi_discount_rate_def series_mean_def column_def)
  show ?thesis
    using t g e by_product_total [of self]
    by (simp add: kpi_gross_margin_pct_def kpi_avg_order_value_def kpi_target_attainment_def
        kpi_revenue_per_employee_def kpi_top10_revenue_share_def kpi_revenue_growth_mom_def
        Let_def)
qed

theorem ratio_kpis_guarded_witness:
  "kpi_gross_margin_pct empty_calc = Inr (Some 0)
   \<and> kpi_avg_order_value empty_calc = Inr (Some 0)
   \<and> kpi_target_attainment empty_calc = Inr (Some 0)
   \<and> kpi_revenue_per_employee empty_calc = Inr (Some 0)
   \<and> kpi_top10_revenue_share empty_calc = Inr (Some 0)
   \<and> kpi_revenue_growth_mom empty_calc = Inr (Some 0)
   \<and> kpi_discount_rate empty_calc = Inr None
   \<and> kpi_discount_rate empty_calc \<noteq> Inl ZeroDivisionError"
proof -
  have e: "eligible empty_calc = []"
    by (simp add: empty_calc_def KPICalculator_init_def merge_left_def)
  have m: "kpi_discount_rate \<in> set (map snd KPI_MAP)"
    by (simp add: KPI_MAP_def)
  have h: "series_sum (column (eligible empty_calc) ''sales_amount'') \<le> 0"
          "\<not> 0 < nunique (column (eligible empty_calc) ''order_id'')"
          "series_sum (column (eligible empty_calc) ''target_amount'') \<le> 0"
          "\<not> 0 < nunique (column (eligible empty_calc) ''employee_key'')"
          "sum_list (by_product empty_calc) \<le> 0"
          "length (remdups (List.map_filter month_key (eligible empty_calc))) < 2"
    by (simp_all add: e column_def series_sum_def nunique_def by_product_def group_sum_def
        List.map_filter_simps)
  show ?thesis
    using ratio_kpis_guarded [of empty_calc] e m h by blast
qed

section \<open>Properties of the dispatcher\<close>

lemma in_KPI_MAP_iff: "in_KPI_MAP d \<longleftrightarrow> map_of KPI_MAP (kd_id d) \<noteq> None"
  by (simp add: in_KPI_MAP_def map_of_eq_None_iff)

lemma produced_eligible:
  "eligible s1 = eligible s2 \<Longrightarrow> produced s1 d r = produced s2 d r"
  unfolding produced_def using kpi_fn_eligible [of "kd_id d" _ s1 s2]
  by (metis kpi_fn_eligible)

lemma rag_status_wf: "wf_thresholds t \<Longrightarrow> \<exists>status. rag_status v t direction = Inr status"
  by (auto simp: wf_thresholds_def rag_status_def lookup_def)

lemma calculate_loop_returns:
  "calculate_loop self ds = Inr self' \<Longrightarrow>
     \<exists>new. self' = self\<lparr>results := results self @ new\<rparr>
           \<and> list_all2 (produced self) (filter in_KPI_MAP ds) new"
proof (induction ds arbitrary: self)
  case Nil
  then show ?case by simp
next
  case (Cons d ds)
  show ?case
  proof (cases "map_of KPI_MAP (kd_id d)")
    case None
    with Cons.prems have "calculate_loop self ds = Inr self'" by simp
    from Cons.IH [OF this] None show ?thesis by (simp add: in_KPI_MAP_iff)
  next
    case (Some fn)
    with Cons.prems obtain v status where
      v: "fn self = Inr v"
      and st: "rag_status v (get_thresholds d) (get_trend_direction d) = Inr status"
      and rest: "calculate_loop (self\<lparr>results := results self @ [result_record d v status]\<rparr>) ds
                   = Inr self'"
      by (auto split: sum.splits)
    let ?s1 = "self\<lparr>results := results self @ [result_record d v status]\<rparr>"
    from Cons.IH [OF rest] obtain new where
      n: "self' = ?s1\<lparr>results := results ?s1 @ new\<rparr>"
         "list_all2 (produced ?s1) (filter in_KPI_MAP ds) new"
      by blast
    have p: "produced ?s1 = produced self"
      by (intro ext produced_eligible) simp
    have h: "produced self d (result_record d v status)"
      unfolding produced_def result_record_def using Some v st by blast
    have "self' = self\<lparr>results := results self @ (result_record d v status # new)\<rparr>"
      using n(1) by simp
    moreover have "list_all2 (produced self) (filter in_KPI_MAP (d # ds))
                     (result_record d v status # new)"
      using n(2) h Some by (simp add: p in_KPI_MAP_iff)
    ultimately show ?thesis by blast
  qed
qed

lemma calculate_loop_total:
  "(\<And>d. d \<in> set ds \<Longrightarrow> in_KPI_MAP d \<Longrightarrow> wf_thresholds (get_thresholds d))
     \<Longrightarrow> \<exists>self'. calculate_loop self ds = Inr self'"
proof (induction ds arbitrary: self)
  case Nil
  show ?case by simp
next
  case (Cons d ds)
  have ih: "\<exists>self'. calculate_loop s ds = Inr self'" for s
    by (rule Cons.IH) (simp add: Cons.prems)
  show ?case
  proof (cases "map_of KPI_MAP (kd_id d)")
    case None
    with ih show ?thesis by simp
  next
    case (Some fn)
    then have "fn \<in> set (map snd KPI_MAP)"
      by (metis map_of_SomeD set_zip_rightD zip_map_fst_snd)
    then obtain v where v: "fn self = Inr v"
      using kpi_fn_total by blast
    have "wf_thresholds (get_thresholds d)"
      using Cons.prems [of d] Some by (simp add: in_KPI_MAP_iff)
    then obtain status where
      "rag_status v (get_thresholds d) (get_trend_direction d) = Inr status"
      using rag_status_wf by blast
    with Some v ih show ?thesis by simp
  qed
qed

lemma length_hits:
  assumes "distinct (map kd_id ds)" and "set (map kd_id ds) = set (map fst KPI_MAP)"
  shows "length (filter in_KPI_MAP ds) = 10"
proof -
  have "filter in_KPI_MAP ds = ds"
    using assms(2) by (auto simp: in_KPI_MAP_def filter_id_conv)
  moreover have "length ds = card (set (map kd_id ds))"
    using distinct_card [OF assms(1)] by simp
  moreover have "card (set (map fst KPI_MAP)) = 10"
    by (simp add: KPI_MAP_def)
  ultimately show ?thesis using assms(2) by simp
qed

text \<open>
  Claim C7. When \<open>calculate_all\<close> returns, it has appended to \<open>self.results\<close> exactly
  one record per catalog entry whose id is in \<open>KPI_MAP\<close>, in catalog order, entries
  with other ids leaving no trace; each record carries the method's value rounded to
  four decimal places and the status of \<open>rag_status\<close>; and a catalog whose ids are,
  without repetition, the ten ids of \<open>KPI_MAP\<close> yields exactly ten records. It does
  return whenever the thresholds of the entries it computes are empty or have the three
  levels.
\<close>

theorem calculate_all_one_result_per_mapped_definition:
  "(calculate_all self = Inr (rs, self') \<longrightarrow>
      (\<exists>new. rs = results self @ new \<and> self' = self\<lparr>results := rs\<rparr>
            \<and> list_all2 (produced self) (filter in_KPI_MAP (kpi_defs self)) new
            \<and> (distinct (map kd_id (kpi_defs self))
                 \<and> set (map kd_id (kpi_defs self)) = set (map fst KPI_MAP)
                \<longrightarrow> length new = 10)))
   \<and> ((\<forall>d\<in>set (kpi_defs self). in_KPI_MAP d \<longrightarrow> wf_thresholds (get_thresholds d)) \<longrightarrow>
        (\<exists>out. calculate_all self = Inr out))"
proof -
  have a: "\<exists>new. rs = results self @ new \<and> self' = self\<lparr>results := rs\<rparr>
            \<and> list_all2 (produced self) (filter in_KPI_MAP (kpi_defs self)) new
            \<and> (distinct (map kd_id (kpi_defs self))
                 \<and> set (map kd_id (kpi_defs self)) = set (map fst KPI_MAP)
                \<longrightarrow> length new = 10)"
    if "calculate_all self = Inr (rs, self')"
  proof -
    from that have l: "calculate_loop self (kpi_defs self) = Inr self'" and r: "rs = results self'"
      by (auto simp: calculate_all_def split: sum.splits)
    from calculate_loop_returns [OF l] obtain new where
      n: "self' = self\<lparr>results := results self @ new\<rparr>"
         "list_all2 (produced self) (filter in_KPI_MAP (kpi_defs self)) new"
      by blast
    have "length new = length (filter in_KPI_MAP (kpi_defs self))"
      using n(2) by (simp add: list_all2_lengthD)
    with n r length_hits [of "kpi_defs self"] show ?thesis by auto
  qed
  have b: "\<exists>out. calculate_all self = Inr out"
    if "\<forall>d\<in>set (kpi_defs self). in_KPI_MAP d \<longrightarrow> wf_thresholds (get_thresholds d)"
  proof -
    from that obtain s where "calculate_loop self (kpi_defs self) = Inr s"
      using calculate_loop_total [of "kpi_defs self" self] by blast
    then show ?thesis by (simp add: calculate_all_def)
  qed
  from a b show ?thesis by blast
qed

theorem calculate_all_one_result_per_mapped_definition_witness:
  "map_sum id (\<lambda>out. map (\<lambda>r. (res_kpi_id r, res_value r, res_rag_status r)) (fst out))
      (calculate_all sample_calc)
     = Inr [(''KPI-001'', Some (12345679/10000), ''RED''), (''KPI-006'', Some 1, ''INFO'')]"
proof -
  have h: "\<forall>d\<in>set (kpi_defs sample_calc). in_KPI_MAP d \<longrightarrow> wf_thresholds (get_thresholds d)"
    by (simp add: sample_calc_def sample_catalog_def in_KPI_MAP_def KPI_MAP_def wf_thresholds_def
        get_thresholds_def test_thresholds_def)
  have r: "py_round (Some (123456789/100000)) 4 = Some (12345679/10000)"
    by (simp add: py_round_def round_half_even_def Let_def)
  have r1: "py_round (Some 1) 4 = Some 1"
    by (simp add: py_round_def round_half_even_def Let_def)
  have e: "map_sum id (\<lambda>out. map (\<lambda>r. (res_kpi_id r, res_value r, res_rag_status r)) (fst out))
      (calculate_all sample_calc)
     = Inr [(''KPI-001'', Some (12345679/10000), ''RED''), (''KPI-006'', Some 1, ''INFO'')]"
    by (simp add: calculate_all_def sample_calc_def sample_catalog_def KPI_MAP_def
        kpi_total_revenue_def kpi_total_orders_def series_sum_def nunique_def column_def
        mk_row_def rag_status_def lookup_def check_def test_thresholds_def get_thresholds_def
        get_trend_direction_def result_record_def r r1)
  from calculate_all_one_result_per_mapped_definition [of sample_calc] h
  obtain rs self' where out: "calculate_all sample_calc = Inr (rs, self')"
    by fastforce
  from calculate_all_one_result_per_mapped_definition [of sample_calc rs self'] out
  obtain new where "rs = results sample_calc @ new"
      "list_all2 (produced sample_calc) (filter in_KPI_MAP (kpi_defs sample_calc)) new"
    by blast
  with e show ?thesis by simp
qed

end
